theory Spec2Isabelle
  imports Complex_Main "HOL-Library.Word"
begin

section \<open>Go library functions used by the translator\<close>

text \<open>
  Go strings are byte sequences; a \<open>string\<close> here is the list of its bytes.
  Go's \<open>int\<close> is modelled at its 64-bit width: arithmetic wraps, \<open>sint\<close> reads the
  signed value.
\<close>

type_synonym goint = "64 word"

subsection \<open>strings.TrimSpace, strings.HasPrefix, strings.TrimPrefix, strings.Join\<close>

text \<open>
  \<open>strings.TrimSpace\<close> removes leading and trailing white space as defined by Unicode
  (\<open>unicode.IsSpace\<close>): the six ASCII characters tab, line feed, vertical tab, form feed,
  carriage return and space, and the code points U+0085, U+00A0, U+1680, U+2000 to U+200A,
  U+2028, U+2029, U+202F, U+205F and U+3000, read from the string's UTF-8 bytes.
  \<open>spaceWidth s\<close> is the byte width of the white-space rune \<open>s\<close> starts with (0 if none).
\<close>

definition asciiSpace :: "char \<Rightarrow> bool" where
  "asciiSpace c = (c \<in> set [CHR 0x09, CHR 0x0A, CHR 0x0B, CHR 0x0C, CHR 0x0D, CHR 0x20])"

definition space2 :: "string list" where
  "space2 = [[CHR 0xC2, CHR 0x85], [CHR 0xC2, CHR 0xA0]]"

definition space3 :: "string list" where
  "space3 =
     [[CHR 0xE1, CHR 0x9A, CHR 0x80],
      [CHR 0xE2, CHR 0x80, CHR 0x80], [CHR 0xE2, CHR 0x80, CHR 0x81],
      [CHR 0xE2, CHR 0x80, CHR 0x82], [CHR 0xE2, CHR 0x80, CHR 0x83],
      [CHR 0xE2, CHR 0x80, CHR 0x84], [CHR 0xE2, CHR 0x80, CHR 0x85],
      [CHR 0xE2, CHR 0x80, CHR 0x86], [CHR 0xE2, CHR 0x80, CHR 0x87],
      [CHR 0xE2, CHR 0x80, CHR 0x88], [CHR 0xE2, CHR 0x80, CHR 0x89],
      [CHR 0xE2, CHR 0x80, CHR 0x8A],
      [CHR 0xE2, CHR 0x80, CHR 0xA8], [CHR 0xE2, CHR 0x80, CHR 0xA9],
      [CHR 0xE2, CHR 0x80, CHR 0xAF], [CHR 0xE2, CHR 0x81, CHR 0x9F],
      [CHR 0xE3, CHR 0x80, CHR 0x80]]"

definition spaceWidth :: "string \<Rightarrow> nat" where
  "spaceWidth s =
     (case s of [] \<Rightarrow> 0
      | c # cs \<Rightarrow>
          if asciiSpace c then 1
          else if take 2 s \<in> set space2 then 2
          else if take 3 s \<in> set space3 then 3
          else 0)"

text \<open>The width of the white-space rune \<open>s\<close> ends with (0 if none).\<close>

definition spaceWidthEnd :: "string \<Rightarrow> nat" where
  "spaceWidthEnd s =
     (case rev s of [] \<Rightarrow> 0
      | c # cs \<Rightarrow>
          if asciiSpace c then 1
          else if 2 \<le> length s \<and> drop (length s - 2) s \<in> set space2 then 2
          else if 3 \<le> length s \<and> drop (length s - 3) s \<in> set space3 then 3
          else 0)"

function trimLeft :: "string \<Rightarrow> string" where
  "trimLeft s = (if spaceWidth s = 0 then s else trimLeft (drop (spaceWidth s) s))"
  by pat_completeness auto
termination
  by (relation "measure length")
     (auto simp: spaceWidth_def split: list.splits if_splits)

function trimRight :: "string \<Rightarrow> string" where
  "trimRight s =
     (if spaceWidthEnd s = 0 then s else trimRight (take (length s - spaceWidthEnd s) s))"
  by pat_completeness auto
termination
  by (relation "measure length")
     (auto simp: spaceWidthEnd_def split: list.splits if_splits)

declare trimLeft.simps [simp del] trimRight.simps [simp del]

definition TrimSpace :: "string \<Rightarrow> string" where
  "TrimSpace s = trimRight (trimLeft s)"

definition HasPrefix :: "string \<Rightarrow> string \<Rightarrow> bool" where
  "HasPrefix s pre = (take (length pre) s = pre)"

definition TrimPrefix :: "string \<Rightarrow> string \<Rightarrow> string" where
  "TrimPrefix s pre = (if HasPrefix s pre then drop (length pre) s else s)"

definition TrimSuffix :: "string \<Rightarrow> string \<Rightarrow> string" where
  "TrimSuffix s suf =
     (if length suf \<le> length s \<and> drop (length s - length suf) s = suf
      then take (length s - length suf) s else s)"

fun Join :: "string list \<Rightarrow> string \<Rightarrow> string" where
  "Join [] sep = []"
| "Join [x] sep = x"
| "Join (x # y # ys) sep = x @ sep @ Join (y # ys) sep"

subsection \<open>strconv.FormatInt in base 10\<close>

function decDigits :: "int \<Rightarrow> string" where
  "decDigits n =
     (if n < 10 then [char_of (48 + n)]
      else decDigits (n div 10) @ [char_of (48 + n mod 10)])"
  by pat_completeness auto
termination
  by (relation "measure nat") auto

declare decDigits.simps [simp del]

definition FormatInt :: "int \<Rightarrow> string" where
  "FormatInt i = (if i < 0 then CHR ''-'' # decDigits (- i) else decDigits i)"

subsection \<open>JSON values\<close>

text \<open>
  What \<open>encoding/json\<close> decodes into a Go \<open>any\<close>: nil, bool, float64, string, slice or
  map. A decoded number is a finite float64, taken here as the real number it denotes.
  The encoder and the decoders themselves are library code: the translator's functions take
  them as parameters.
\<close>

datatype json =
    JNull
  | JBool bool
  | JNumber real
  | JString string
  | JArray "json list"
  | JObject "(string \<times> json) list"

section \<open>Wire types\<close>

record ThinkingField =
  tf_Content :: string
  tf_Signature :: string

record FunctionCall =
  fc_Name :: string
  fc_Arguments :: string

record ToolCall =
  tc_Index :: goint
  tc_ID :: string
  tc_Type :: string
  tc_Function :: FunctionCall

text \<open>\<open>ChatMessage\<close>; its field \<open>ReasoningDetails\<close>, which no function reads, is left out.
  \<open>Content\<close> is a \<open>json.RawMessage\<close>: the bytes of the value.\<close>

record ChatMessage =
  cm_Role :: string
  cm_Content :: string
  cm_Reasoning :: string
  cm_ReasoningContent :: string
  cm_ThinkingField :: "ThinkingField option"
  cm_ToolCalls :: "ToolCall list"
  cm_ToolCallID :: string
  cm_Name :: string

record PromptTokensDetails =
  ptd_CachedTokens :: goint

record Usage =
  u_PromptTokens :: goint
  u_CompletionTokens :: goint
  u_TotalTokens :: goint
  u_PromptTokensDetails :: "PromptTokensDetails option"

record ChatChoice =
  cc_Index :: goint
  cc_Message :: ChatMessage
  cc_FinishReason :: string

record ChatResponse =
  cr_ID :: string
  cr_Object :: string
  cr_Model :: string
  cr_Choices :: "ChatChoice list"
  cr_Usage :: "Usage option"

text \<open>
  Modelled from the spec: the Claude-side types of package \<open>antigravity\<close>, whose
  declarations are not among the sources. \<open>ClaudeUsage\<close> has the three counters the spec
  lists; \<open>ClaudeContentItem\<close> and \<open>ClaudeResponse\<close> have the fields the response
  transformer sets.
\<close>

record ClaudeUsage =
  InputTokens :: goint
  OutputTokens :: goint
  CacheReadInputTokens :: goint

record ClaudeContentItem =
  ci_Type :: string
  ci_Text :: string
  ci_Thinking :: string
  ci_Signature :: string
  ci_ID :: string
  ci_Name :: string
  ci_Input :: "json option"

record ClaudeResponse =
  resp_ID :: string
  resp_Type :: string
  resp_Role :: string
  resp_Model :: string
  resp_Content :: "ClaudeContentItem list"
  resp_StopReason :: string
  resp_Usage :: ClaudeUsage

record ErrorDetail =
  ed_Message :: string
  ed_Type :: string
  ed_Code :: "json option"

record ErrorResponse =
  er_Error :: "ErrorDetail option"

record ClaudeErrorDetail =
  ced_Type :: string
  ced_Message :: string

record ClaudeError =
  ce_Type :: string
  ce_Error :: ClaudeErrorDetail

record ThinkingDelta =
  td_Content :: string
  td_Signature :: string

record StreamChunkDelta =
  scd_Role :: string
  scd_Content :: string
  scd_Thinking :: "ThinkingDelta option"
  scd_ReasoningContent :: string
  scd_Reasoning :: string
  scd_ToolCalls :: "ToolCall list"

record StreamChunkChoice =
  scc_Index :: goint
  scc_Delta :: StreamChunkDelta
  scc_FinishReason :: "string option"

record StreamChunk =
  sc_ID :: string
  sc_Object :: string
  sc_Model :: string
  sc_Choices :: "StreamChunkChoice list"
  sc_Usage :: "Usage option"

record ImageURL =
  iu_URL :: string
  iu_Detail :: string

record ContentPart =
  cp_Type :: string
  cp_Text :: string
  cp_ImageURL :: "ImageURL option"

record FunctionDef =
  fd_Name :: string
  fd_Description :: string
  fd_Parameters :: "(string \<times> json) list option"

record Tool =
  t_Type :: string
  t_Function :: FunctionDef

text \<open>\<open>ChatRequest\<close>: \<open>StreamOptions\<close> is the optional \<open>StreamOpts\<close>, whose one field is
  \<open>IncludeUsage\<close>, and \<open>Reasoning\<close> the optional \<open>ReasoningConfig\<close>, whose one field is
  \<open>Effort\<close>.\<close>

record ChatRequest =
  req_Model :: string
  req_Messages :: "ChatMessage list"
  req_MaxTokens :: goint
  req_Temperature :: "real option"
  req_TopP :: "real option"
  req_Stream :: bool
  req_Tools :: "Tool list"
  req_ToolChoice :: "json option"
  req_StreamOptions :: "bool option"
  req_Reasoning :: "string option"

text \<open>
  Modelled from the spec: the request-side types of package \<open>antigravity\<close>
  (\<open>ClaudeRequest\<close>, \<open>ClaudeMessage\<close>, \<open>ContentBlock\<close>, \<open>SystemBlock\<close>, \<open>ClaudeTool\<close>),
  whose declarations are not among the sources; each has the fields the request
  transformer reads. \<open>System\<close>, \<open>ToolChoice\<close> and both \<open>Content\<close> fields are
  \<open>json.RawMessage\<close> bytes.
\<close>

record ImageSource =
  is_Type :: string
  is_MediaType :: string
  is_Data :: string

record ContentBlock =
  cb_Type :: string
  cb_Text :: string
  cb_Source :: "ImageSource option"
  cb_Content :: string
  cb_IsError :: bool
  cb_ToolUseID :: string
  cb_Thinking :: string
  cb_Signature :: string
  cb_ID :: string
  cb_Name :: string
  cb_Input :: "json option"

record SystemBlock =
  sb_Type :: string
  sb_Text :: string

record ClaudeMessage =
  msg_Role :: string
  msg_Content :: string

record CustomToolSpec =
  cts_Description :: string
  cts_InputSchema :: "(string \<times> json) list option"

record ClaudeTool =
  ct_Name :: string
  ct_Type :: string
  ct_Description :: string
  ct_InputSchema :: "(string \<times> json) list option"
  ct_Custom :: "CustomToolSpec option"

record ThinkingConfig =
  tcfg_Type :: string
  tcfg_BudgetTokens :: goint

record ClaudeRequest =
  creq_Model :: string
  creq_MaxTokens :: goint
  creq_Temperature :: "real option"
  creq_TopP :: "real option"
  creq_Stream :: bool
  creq_Thinking :: "ThinkingConfig option"
  creq_System :: string
  creq_Messages :: "ClaudeMessage list"
  creq_Tools :: "ClaudeTool list"
  creq_ToolChoice :: string

subsection \<open>The JSON library\<close>

text \<open>
  \<open>json.Unmarshal\<close> at each target type the translator decodes into (\<open>None\<close> when it
  returns an error) and \<open>json.Marshal\<close> at each type it encodes (\<open>None\<close> when it
  returns an error; encoding a string or a slice of \<open>ContentPart\<close> cannot fail). They are
  library code, so every function below takes them as the parameter \<open>js\<close> and the
  theorems hold for every choice of them.
\<close>

record jsonlib =
  unmarshalString :: "string \<Rightarrow> string option"
  unmarshalAny :: "string \<Rightarrow> json option"
  unmarshalObjects :: "string \<Rightarrow> (string \<times> json) list list option"
  unmarshalContentBlocks :: "string \<Rightarrow> ContentBlock list option"
  unmarshalSystemBlocks :: "string \<Rightarrow> SystemBlock list option"
  unmarshalToolChoice :: "string \<Rightarrow> (string \<times> string) option"
  unmarshalClaudeRequest :: "string \<Rightarrow> ClaudeRequest option"
  unmarshalChatResponse :: "string \<Rightarrow> ChatResponse option"
  unmarshalErrorResponse :: "string \<Rightarrow> ErrorResponse option"
  unmarshalStreamChunk :: "string \<Rightarrow> StreamChunk option"
  marshalString :: "string \<Rightarrow> string"
  marshalContentParts :: "ContentPart list \<Rightarrow> string"
  marshalAny :: "json option \<Rightarrow> string option"
  marshalChatRequest :: "ChatRequest \<Rightarrow> string option"
  marshalClaudeResponse :: "ClaudeResponse \<Rightarrow> string option"
  marshalClaudeError :: "ClaudeError \<Rightarrow> string option"

section \<open>Response transformer\<close>

definition zeroUsage :: ClaudeUsage where
  "zeroUsage = \<lparr>InputTokens = 0, OutputTokens = 0, CacheReadInputTokens = 0\<rparr>"

text \<open>\<open>extractUsage\<close>: \<open>input_tokens = prompt_tokens - cached_tokens\<close>, floored at 0.\<close>

definition extractUsage :: "Usage option \<Rightarrow> ClaudeUsage" where
  "extractUsage u =
     (case u of
        None \<Rightarrow> zeroUsage
      | Some u \<Rightarrow>
          let cachedTokens =
                (case u_PromptTokensDetails u of None \<Rightarrow> 0 | Some d \<Rightarrow> ptd_CachedTokens d);
              inputTokens = u_PromptTokens u - cachedTokens
          in \<lparr>InputTokens = (if sint inputTokens < 0 then 0 else inputTokens),
              OutputTokens = u_CompletionTokens u,
              CacheReadInputTokens = cachedTokens\<rparr>)"

definition mapFinishReason :: "string \<Rightarrow> bool \<Rightarrow> string" where
  "mapFinishReason finishReason hasToolUse =
     (if hasToolUse then ''tool_use''
      else if finishReason = ''stop'' then ''end_turn''
      else if finishReason = ''tool_calls'' then ''tool_use''
      else if finishReason = ''length'' then ''max_tokens''
      else if finishReason = ''content_filter'' then ''end_turn''
      else ''end_turn'')"

definition chars :: string where
  "chars = ''abcdefghijklmnopqrstuvwxyzABCDEFGHIJKLMNOPQRSTUVWXYZ0123456789''"

text \<open>
  \<open>randomID\<close>: twelve characters of \<open>chars\<close>. \<open>draw i\<close> stands for the outcome of the
  \<open>i\<close>-th call of \<open>rand.Intn(len(chars))\<close>, which lies in \<open>[0, len(chars))\<close>: the reduction
  modulo the length is \<open>rand.Intn\<close>'s range.
\<close>

definition randomID :: "(nat \<Rightarrow> nat) \<Rightarrow> string" where
  "randomID draw = map (\<lambda>i. chars ! (draw i mod length chars)) [0..<12]"

definition convertID :: "(nat \<Rightarrow> nat) \<Rightarrow> string \<Rightarrow> string" where
  "convertID draw openaiID = (if openaiID \<noteq> '''' then openaiID else ''msg_'' @ randomID draw)"

text \<open>\<open>generateFakeSignature\<close>; \<open>now\<close> is the reading of \<open>time.Now().UnixMilli()\<close>, an
  int64 that is only formatted: it is taken as the integer it denotes.\<close>

definition generateFakeSignature :: "int \<Rightarrow> string" where
  "generateFakeSignature now = FormatInt now"


text \<open>
  \<open>TransformOpenAIToClaude\<close>, in the order of its body. \<open>thinkingItems\<close> is the
  reasoning part (the first choice's message to a thinking block), \<open>textItems\<close> the text
  part, \<open>toolItems\<close> the loop over the tool calls; \<open>buildClaudeResponse\<close> is the
  \<open>ClaudeResponse\<close> value the function builds before it encodes it.
\<close>

definition emptyItem :: ClaudeContentItem where
  "emptyItem = \<lparr>ci_Type = '''', ci_Text = '''', ci_Thinking = '''', ci_Signature = '''',
                 ci_ID = '''', ci_Name = '''', ci_Input = None\<rparr>"

definition thinkingItems :: "int \<Rightarrow> ChatMessage \<Rightarrow> ClaudeContentItem list" where
  "thinkingItems now msg =
     (let reasoning0 = cm_Reasoning msg;
          reasoning1 = (if reasoning0 = '''' then cm_ReasoningContent msg else reasoning0);
          (reasoning, thinkingSignature0) =
            (case cm_ThinkingField msg of
               Some tf \<Rightarrow>
                 if tf_Content tf \<noteq> '''' then (tf_Content tf, tf_Signature tf)
                 else (reasoning1, '''')
             | None \<Rightarrow> (reasoning1, ''''))
      in if reasoning \<noteq> '''' then
           let thinkingSignature =
                 (if thinkingSignature0 = '''' then generateFakeSignature now
                  else thinkingSignature0)
           in [emptyItem\<lparr>ci_Type := ''thinking'', ci_Thinking := reasoning,
                          ci_Signature := thinkingSignature\<rparr>]
         else [])"

definition textItems :: "jsonlib \<Rightarrow> ChatMessage \<Rightarrow> ClaudeContentItem list" where
  "textItems js msg =
     (let textContent =
            (if 0 < length (cm_Content msg)
             then (case unmarshalString js (cm_Content msg) of Some s \<Rightarrow> s | None \<Rightarrow> '''')
             else '''')
      in if textContent \<noteq> '''' then [emptyItem\<lparr>ci_Type := ''text'', ci_Text := textContent\<rparr>]
         else [])"

definition toolItem :: "jsonlib \<Rightarrow> ToolCall \<Rightarrow> ClaudeContentItem" where
  "toolItem js tc =
     (let input0 =
            (if fc_Arguments (tc_Function tc) \<noteq> ''''
             then (case unmarshalAny js (fc_Arguments (tc_Function tc)) of
                     Some v \<Rightarrow> v | None \<Rightarrow> JNull)
             else JNull);
          input = (if input0 = JNull then JObject [] else input0)
      in emptyItem\<lparr>ci_Type := ''tool_use'', ci_ID := tc_ID tc,
                     ci_Name := fc_Name (tc_Function tc), ci_Input := Some input\<rparr>)"

definition toolItems :: "jsonlib \<Rightarrow> ChatMessage \<Rightarrow> ClaudeContentItem list" where
  "toolItems js msg = map (toolItem js) (cm_ToolCalls msg)"

definition buildClaudeResponse ::
  "jsonlib \<Rightarrow> int \<Rightarrow> (nat \<Rightarrow> nat) \<Rightarrow> ChatResponse \<Rightarrow> string \<Rightarrow> ClaudeResponse" where
  "buildClaudeResponse js now draw resp originalModel =
     (let (content0, hasToolUse) =
            (case cr_Choices resp of
               [] \<Rightarrow> ([], False)
             | c # _ \<Rightarrow>
                 (thinkingItems now (cc_Message c) @ textItems js (cc_Message c)
                    @ toolItems js (cc_Message c),
                  cm_ToolCalls (cc_Message c) \<noteq> []));
          content =
            (if length content0 = 0 then [emptyItem\<lparr>ci_Type := ''text'', ci_Text := ''''\<rparr>]
             else content0);
          stopReason =
            (case cr_Choices resp of
               [] \<Rightarrow> ''end_turn''
             | c # _ \<Rightarrow> mapFinishReason (cc_FinishReason c) hasToolUse);
          usage = extractUsage (cr_Usage resp)
      in \<lparr>resp_ID = convertID draw (cr_ID resp), resp_Type = ''message'',
          resp_Role = ''assistant'', resp_Model = originalModel, resp_Content = content,
          resp_StopReason = stopReason, resp_Usage = usage\<rparr>)"

datatype transform_error = ParseOpenAIResponse | MarshalClaudeResponse

definition TransformOpenAIToClaude ::
  "jsonlib \<Rightarrow> int \<Rightarrow> (nat \<Rightarrow> nat) \<Rightarrow> string \<Rightarrow> string
     \<Rightarrow> transform_error + (string \<times> ClaudeUsage)" where
  "TransformOpenAIToClaude js now draw body originalModel =
     (case unmarshalChatResponse js body of
        None \<Rightarrow> Inl ParseOpenAIResponse
      | Some resp \<Rightarrow>
          let claudeResp = buildClaudeResponse js now draw resp originalModel
          in (case marshalClaudeResponse js claudeResp of
                None \<Rightarrow> Inl MarshalClaudeResponse
              | Some respBytes \<Rightarrow> Inr (respBytes, resp_Usage claudeResp)))"

definition mapErrorType :: "int \<Rightarrow> string" where
  "mapErrorType statusCode =
     (if statusCode = 400 then ''invalid_request_error''
      else if statusCode = 401 then ''authentication_error''
      else if statusCode = 403 then ''permission_error''
      else if statusCode = 404 then ''not_found_error''
      else if statusCode = 429 then ''rate_limit_error''
      else if statusCode \<ge> 500 then ''api_error''
      else ''api_error'')"

definition TransformOpenAIErrorToClaude :: "jsonlib \<Rightarrow> string \<Rightarrow> int \<Rightarrow> string" where
  "TransformOpenAIErrorToClaude js body statusCode =
     (case unmarshalErrorResponse js body of
        None \<Rightarrow> body
      | Some openaiErr \<Rightarrow>
          (case er_Error openaiErr of
             None \<Rightarrow> body
           | Some e \<Rightarrow>
               let claudeErr = \<lparr>ce_Type = ''error'',
                                ce_Error = \<lparr>ced_Type = mapErrorType statusCode,
                                            ced_Message = ed_Message e\<rparr>\<rparr>
               in (case marshalClaudeError js claudeErr of None \<Rightarrow> body | Some r \<Rightarrow> r)))"

definition ExtractUsageFromBody :: "jsonlib \<Rightarrow> string \<Rightarrow> ClaudeUsage" where
  "ExtractUsageFromBody js body =
     (case unmarshalChatResponse js body of
        None \<Rightarrow> zeroUsage
      | Some resp \<Rightarrow> extractUsage (cr_Usage resp))"

section \<open>Request transformer\<close>

datatype request_error = BuildSystemMessage | ConvertMessage nat | MarshalChatRequest

definition emptyMessage :: ChatMessage where
  "emptyMessage = \<lparr>cm_Role = '''', cm_Content = '''', cm_Reasoning = '''',
                    cm_ReasoningContent = '''', cm_ThinkingField = None, cm_ToolCalls = [],
                    cm_ToolCallID = '''', cm_Name = ''''\<rparr>"

definition buildSystemMessage :: "jsonlib \<Rightarrow> string \<Rightarrow> request_error + ChatMessage option" where
  "buildSystemMessage js system =
     (if length system = 0 then Inr None
      else case unmarshalString js system of
        Some sysStr \<Rightarrow>
          if TrimSpace sysStr = '''' then Inr None
          else Inr (Some (emptyMessage\<lparr>cm_Role := ''system'',
                                         cm_Content := marshalString js sysStr\<rparr>))
      | None \<Rightarrow>
          (case unmarshalSystemBlocks js system of
             Some sysBlocks \<Rightarrow>
               let texts = map sb_Text
                     (filter (\<lambda>block. sb_Type block = ''text'' \<and> TrimSpace (sb_Text block) \<noteq> '''')
                        sysBlocks)
               in if length texts = 0 then Inr None
                  else Inr (Some (emptyMessage\<lparr>cm_Role := ''system'',
                         cm_Content := marshalString js (Join texts [CHR 0x0A, CHR 0x0A])\<rparr>))
           | None \<Rightarrow> Inr None))"

text \<open>\<open>extractToolResultText\<close>: the text of a \<open>tool_result\<close> block.\<close>

definition textsOf :: "(string \<times> json) list list \<Rightarrow> string list" where
  "textsOf arr =
     concat (map (\<lambda>item. case map_of item ''text'' of Some (JString text) \<Rightarrow> [text] | _ \<Rightarrow> [])
               arr)"

definition extractToolResultText :: "jsonlib \<Rightarrow> ContentBlock \<Rightarrow> string" where
  "extractToolResultText js block =
     (if length (cb_Content block) = 0 then
        (if cb_IsError block then ''Tool execution failed.''
         else ''Command executed successfully.'')
      else case unmarshalString js (cb_Content block) of
        Some str \<Rightarrow>
          if TrimSpace str = '''' then
            (if cb_IsError block then ''Tool execution failed.''
             else ''Command executed successfully.'')
          else str
      | None \<Rightarrow>
          (case unmarshalObjects js (cb_Content block) of
             Some arr \<Rightarrow>
               let result = Join (textsOf arr) [CHR 0x0A]
               in if TrimSpace result \<noteq> '''' then result else cb_Content block
           | None \<Rightarrow> cb_Content block))"

text \<open>\<open>convertUserBlocks\<close>: the loop body on the pair (messages, contentParts), then the
  function.\<close>

definition userBlockStep ::
  "jsonlib \<Rightarrow> string \<Rightarrow> ChatMessage list \<times> ContentPart list \<Rightarrow> ContentBlock
     \<Rightarrow> ChatMessage list \<times> ContentPart list" where
  "userBlockStep js role st block =
     (let (messages, contentParts) = st in
      if cb_Type block = ''text'' then
        (messages, contentParts @ [\<lparr>cp_Type = ''text'', cp_Text = cb_Text block,
                                     cp_ImageURL = None\<rparr>])
      else if cb_Type block = ''image'' then
        (case cb_Source block of
           Some src \<Rightarrow>
             if is_Type src = ''base64'' then
               (messages, contentParts @ [\<lparr>cp_Type = ''image_url'', cp_Text = '''',
                  cp_ImageURL = Some \<lparr>iu_URL = ''data:'' @ is_MediaType src @ '';base64,''
                                                  @ is_Data src,
                                        iu_Detail = ''''\<rparr>\<rparr>])
             else (messages, contentParts)
         | None \<Rightarrow> (messages, contentParts))
      else if cb_Type block = ''tool_result'' then
        (let (messages1, contentParts1) =
               (if 0 < length contentParts then
                  (messages @ [emptyMessage\<lparr>cm_Role := role,
                                 cm_Content := marshalContentParts js contentParts\<rparr>], [])
                else (messages, contentParts));
             resultText = extractToolResultText js block
         in (messages1 @ [emptyMessage\<lparr>cm_Role := ''tool'',
                            cm_Content := marshalString js resultText,
                            cm_ToolCallID := cb_ToolUseID block\<rparr>],
             contentParts1))
      else (messages, contentParts))"

definition convertUserBlocks ::
  "jsonlib \<Rightarrow> string \<Rightarrow> ContentBlock list \<Rightarrow> request_error + ChatMessage list" where
  "convertUserBlocks js role blocks =
     (let (messages, contentParts) = foldl (userBlockStep js role) ([], []) blocks in
      if 0 < length contentParts then
        (if length contentParts = 1 \<and> cp_Type (contentParts ! 0) = ''text'' then
           Inr (messages @ [emptyMessage\<lparr>cm_Role := role,
                  cm_Content := marshalString js (cp_Text (contentParts ! 0))\<rparr>])
         else
           Inr (messages @ [emptyMessage\<lparr>cm_Role := role,
                  cm_Content := marshalContentParts js contentParts\<rparr>]))
      else Inr messages)"

text \<open>\<open>convertAssistantBlocks\<close>: the loop body on (textParts, toolCalls, thinkingParts,
  lastSignature), then the function.\<close>

definition assistantBlockStep ::
  "jsonlib \<Rightarrow> string list \<times> ToolCall list \<times> string list \<times> string \<Rightarrow> ContentBlock
     \<Rightarrow> string list \<times> ToolCall list \<times> string list \<times> string" where
  "assistantBlockStep js st block =
     (let (textParts, toolCalls, thinkingParts, lastSignature) = st in
      if cb_Type block = ''text'' then
        (textParts @ [cb_Text block], toolCalls, thinkingParts, lastSignature)
      else if cb_Type block = ''tool_use'' then
        (let argsJSON = (case marshalAny js (cb_Input block) of Some a \<Rightarrow> a | None \<Rightarrow> ''{}'')
         in (textParts,
             toolCalls @ [\<lparr>tc_Index = 0, tc_ID = cb_ID block, tc_Type = ''function'',
                            tc_Function = \<lparr>fc_Name = cb_Name block,
                                            fc_Arguments = argsJSON\<rparr>\<rparr>],
             thinkingParts, lastSignature))
      else if cb_Type block = ''thinking'' then
        (textParts, toolCalls,
         (if cb_Thinking block \<noteq> '''' then thinkingParts @ [cb_Thinking block]
          else thinkingParts),
         (if cb_Signature block \<noteq> '''' then cb_Signature block else lastSignature))
      else (textParts, toolCalls, thinkingParts, lastSignature))"

definition convertAssistantBlocks ::
  "jsonlib \<Rightarrow> ContentBlock list \<Rightarrow> request_error + ChatMessage list" where
  "convertAssistantBlocks js blocks =
     (let (textParts, toolCalls, thinkingParts, lastSignature) =
            foldl (assistantBlockStep js) ([], [], [], '''') blocks;
          msg0 = emptyMessage\<lparr>cm_Role := ''assistant''\<rparr>;
          msg1 = (if 0 < length thinkingParts then
                    msg0\<lparr>cm_ThinkingField :=
                           Some \<lparr>tf_Content = Join thinkingParts [CHR 0x0A],
                                 tf_Signature = lastSignature\<rparr>\<rparr>
                  else msg0);
          msg2 = (if 0 < length textParts then
                    msg1\<lparr>cm_Content := marshalString js (Join textParts '''')\<rparr>
                  else msg1);
          msg3 = (if 0 < length toolCalls then msg2\<lparr>cm_ToolCalls := toolCalls\<rparr> else msg2)
      in Inr [msg3])"

definition convertMessage ::
  "jsonlib \<Rightarrow> ClaudeMessage \<Rightarrow> request_error + ChatMessage list" where
  "convertMessage js msg =
     (case unmarshalString js (msg_Content msg) of
        Some textContent \<Rightarrow>
          Inr [emptyMessage\<lparr>cm_Role := msg_Role msg,
                             cm_Content := marshalString js textContent\<rparr>]
      | None \<Rightarrow>
          (case unmarshalContentBlocks js (msg_Content msg) of
             None \<Rightarrow> Inr [emptyMessage\<lparr>cm_Role := msg_Role msg,
                                        cm_Content := msg_Content msg\<rparr>]
           | Some blocks \<Rightarrow>
               if msg_Role msg = ''assistant'' then convertAssistantBlocks js blocks
               else convertUserBlocks js (msg_Role msg) blocks))"

definition defaultParameters :: "(string \<times> json) list" where
  "defaultParameters = [(''type'', JString ''object''), (''properties'', JObject [])]"

definition convertTool :: "ClaudeTool \<Rightarrow> Tool list" where
  "convertTool ct =
     (let name = TrimSpace (ct_Name ct) in
      if name = '''' then []
      else
        let (description, parameters) =
              (case ct_Custom ct of
                 Some custom \<Rightarrow>
                   if ct_Type ct = ''custom''
                   then (cts_Description custom, cts_InputSchema custom)
                   else (ct_Description ct, ct_InputSchema ct)
               | None \<Rightarrow> (ct_Description ct, ct_InputSchema ct))
        in if ct_Type ct = ''web_search_20250305'' \<or> ct_Type ct = ''web_search'' then []
           else
             [\<lparr>t_Type = ''function'',
               t_Function = \<lparr>fd_Name = name, fd_Description = description,
                 fd_Parameters =
                   Some (case parameters of None \<Rightarrow> defaultParameters | Some p \<Rightarrow> p)\<rparr>\<rparr>])"

definition convertTools :: "ClaudeTool list \<Rightarrow> Tool list" where
  "convertTools claudeTools = concat (map convertTool claudeTools)"

definition convertToolChoice :: "jsonlib \<Rightarrow> string \<Rightarrow> json option" where
  "convertToolChoice js raw =
     (case unmarshalToolChoice js raw of
        None \<Rightarrow> None
      | Some (tcType, tcName) \<Rightarrow>
          if tcType = ''auto'' then Some (JString ''auto'')
          else if tcType = ''any'' then Some (JString ''required'')
          else if tcType = ''none'' then Some (JString ''none'')
          else if tcType = ''tool'' then
            Some (JObject [(''type'', JString ''function''),
                           (''function'', JObject [(''name'', JString tcName)])])
          else None)"

text \<open>The loop of \<open>TransformClaudeToOpenAI\<close> over the messages, from message number \<open>i\<close>.\<close>

fun convertMessages ::
  "jsonlib \<Rightarrow> nat \<Rightarrow> ClaudeMessage list \<Rightarrow> request_error + ChatMessage list" where
  "convertMessages js i [] = Inr []"
| "convertMessages js i (msg # rest) =
     (case convertMessage js msg of
        Inl err \<Rightarrow> Inl (ConvertMessage i)
      | Inr converted \<Rightarrow>
          (case convertMessages js (Suc i) rest of
             Inl err \<Rightarrow> Inl err
           | Inr others \<Rightarrow> Inr (converted @ others)))"

definition reasoningEffort :: "ThinkingConfig option \<Rightarrow> string option" where
  "reasoningEffort thinking =
     (case thinking of
        None \<Rightarrow> None
      | Some t \<Rightarrow>
          if tcfg_Type t = ''enabled'' \<or> tcfg_Type t = ''adaptive'' then
            (let b = sint (tcfg_BudgetTokens t) in
             if 0 < b \<and> b \<le> 4096 then Some ''low''
             else if 4096 < b \<and> b \<le> 16384 then Some ''medium''
             else Some ''high'')
          else None)"

text \<open>The \<open>ChatRequest\<close> value that \<open>TransformClaudeToOpenAI\<close> builds, then the function,
  which encodes it.\<close>

definition buildChatRequest :: "jsonlib \<Rightarrow> ClaudeRequest \<Rightarrow> request_error + ChatRequest" where
  "buildChatRequest js claudeReq =
     (case buildSystemMessage js (creq_System claudeReq) of
        Inl err \<Rightarrow> Inl BuildSystemMessage
      | Inr systemMsg \<Rightarrow>
          (case convertMessages js 0 (creq_Messages claudeReq) of
             Inl err \<Rightarrow> Inl err
           | Inr converted \<Rightarrow>
               Inr \<lparr>req_Model = creq_Model claudeReq,
                    req_Messages =
                      (case systemMsg of None \<Rightarrow> [] | Some m \<Rightarrow> [m]) @ converted,
                    req_MaxTokens = creq_MaxTokens claudeReq,
                    req_Temperature = creq_Temperature claudeReq,
                    req_TopP = creq_TopP claudeReq,
                    req_Stream = creq_Stream claudeReq,
                    req_Tools =
                      (if 0 < length (creq_Tools claudeReq)
                       then convertTools (creq_Tools claudeReq) else []),
                    req_ToolChoice =
                      (if 0 < length (creq_ToolChoice claudeReq)
                       then convertToolChoice js (creq_ToolChoice claudeReq) else None),
                    req_StreamOptions = (if creq_Stream claudeReq then Some True else None),
                    req_Reasoning = reasoningEffort (creq_Thinking claudeReq)\<rparr>))"

definition TransformClaudeToOpenAI :: "jsonlib \<Rightarrow> ClaudeRequest \<Rightarrow> request_error + string" where
  "TransformClaudeToOpenAI js claudeReq =
     (case buildChatRequest js claudeReq of
        Inl err \<Rightarrow> Inl err
      | Inr req \<Rightarrow>
          (case marshalChatRequest js req of
             None \<Rightarrow> Inl MarshalChatRequest
           | Some bytes \<Rightarrow> Inr bytes))"

section \<open>Streaming processor\<close>

text \<open>
  The Claude events. \<open>formatSSE\<close> frames each one as \<open>event: <type>\<close>, \<open>data: <JSON>\<close>
  and a blank line; the events below are the values it encodes (encoding these maps of
  strings, integers and nulls cannot fail), and the bytes that \<open>ProcessLine\<close> returns are
  the list of them in order.
  \<open>message_start id model input_tokens\<close> carries the message with that id and model, an
  empty content, null stop fields and the usage \<open>{input_tokens, output_tokens: 0}\<close>;
  \<open>message_delta stop_reason output_tokens\<close> carries the stop reason, a null stop
  sequence and the usage \<open>{output_tokens}\<close>.
\<close>

datatype content_block =
    text_block                  \<comment> \<open>\<open>{type: text, text: ""}\<close>\<close>
  | thinking_block              \<comment> \<open>\<open>{type: thinking, thinking: ""}\<close>\<close>
  | tool_use_block string string  \<comment> \<open>\<open>{type: tool_use, id, name, input: {}}\<close>\<close>

datatype block_delta =
    text_delta string
  | thinking_delta string
  | signature_delta string
  | input_json_delta string

datatype event =
    message_start string string goint
  | content_block_start goint content_block
  | content_block_delta goint block_delta
  | content_block_stop goint
  | message_delta string goint
  | message_stop

record toolCallState =
  tcs_ID :: string
  tcs_Name :: string
  tcs_Arguments :: string
  tcs_Started :: bool

text \<open>
  The processor's fields, and \<open>clockReads\<close>, which is not a field of the Go struct: it
  counts the readings of \<open>time.Now()\<close> taken so far. The functions take the clock as the
  parameter \<open>clock\<close>, whose \<open>n\<close>-th value is the \<open>n\<close>-th reading of
  \<open>time.Now().UnixMilli()\<close> (as the integer it denotes).
\<close>

record StreamingProcessor =
  originalModel :: string
  messageStartSent :: bool
  messageStopSent :: bool
  blockIndex :: goint
  blockOpen :: bool
  blockType :: string
  usedTool :: bool
  thinkingStarted :: bool
  thinkingGotSig :: bool
  activeToolCalls :: "goint \<rightharpoonup> toolCallState"
  usage :: ClaudeUsage
  clockReads :: nat

definition NewStreamingProcessor :: "string \<Rightarrow> StreamingProcessor" where
  "NewStreamingProcessor model =
     \<lparr>originalModel = model, messageStartSent = False, messageStopSent = False,
      blockIndex = 0, blockOpen = False, blockType = '''', usedTool = False,
      thinkingStarted = False, thinkingGotSig = False, activeToolCalls = Map.empty,
      usage = zeroUsage, clockReads = 0\<rparr>"

text \<open>
  Every function of the processor returns the events it emits and the processor after
  it. \<open>write r f\<close> is \<open>result.Write(p.f(...))\<close>: it runs \<open>f\<close> on the processor of
  \<open>r\<close> and appends its events to those of \<open>r\<close>.
\<close>

type_synonym emit = "event list \<times> StreamingProcessor"

definition "write" :: "emit \<Rightarrow> (StreamingProcessor \<Rightarrow> emit) \<Rightarrow> emit" where
  "write r f = (case r of (out, p) \<Rightarrow> (case f p of (out', p') \<Rightarrow> (out @ out', p')))"

definition openBlock :: "string \<Rightarrow> content_block \<Rightarrow> StreamingProcessor \<Rightarrow> emit" where
  "openBlock bt contentBlock p =
     (if blockOpen p then ([], p)
      else ([content_block_start (blockIndex p) contentBlock],
            p\<lparr>blockOpen := True, blockType := bt\<rparr>))"

definition closeBlock :: "StreamingProcessor \<Rightarrow> emit" where
  "closeBlock p =
     (if \<not> blockOpen p then ([], p)
      else ([content_block_stop (blockIndex p)],
            p\<lparr>blockOpen := False, blockIndex := blockIndex p + 1, blockType := ''''\<rparr>))"

definition emitMessageStart :: "(nat \<Rightarrow> nat) \<Rightarrow> string \<Rightarrow> StreamingProcessor \<Rightarrow> emit" where
  "emitMessageStart draw responseID p =
     (if messageStartSent p then ([], p)
      else
        let rid = (if responseID = '''' then ''msg_'' @ randomID draw else responseID)
        in ([message_start rid (originalModel p) (InputTokens (usage p))],
            p\<lparr>messageStartSent := True\<rparr>))"

definition closeThinkingWithFakeSignature :: "(nat \<Rightarrow> int) \<Rightarrow> StreamingProcessor \<Rightarrow> emit" where
  "closeThinkingWithFakeSignature clock p =
     (if \<not> blockOpen p \<or> blockType p \<noteq> ''thinking'' then ([], p)
      else if thinkingGotSig p then closeBlock p
      else
        let fakeSig = FormatInt (clock (clockReads p));
            p1 = p\<lparr>clockReads := Suc (clockReads p)\<rparr>
        in write ([content_block_delta (blockIndex p1) (signature_delta fakeSig)], p1)
             closeBlock)"

definition processTextDelta :: "(nat \<Rightarrow> int) \<Rightarrow> string \<Rightarrow> StreamingProcessor \<Rightarrow> emit" where
  "processTextDelta clock text p =
     (let r1 = (if blockOpen p \<and> blockType p \<noteq> ''text'' then
                  (if blockType p = ''thinking'' then closeThinkingWithFakeSignature clock p
                   else closeBlock p)
                else ([], p));
          r2 = write r1 (\<lambda>p. if \<not> blockOpen p then openBlock ''text'' text_block p
                              else ([], p))
      in write r2 (\<lambda>p. ([content_block_delta (blockIndex p) (text_delta text)], p)))"

definition processThinkingDelta :: "string \<Rightarrow> StreamingProcessor \<Rightarrow> emit" where
  "processThinkingDelta text p =
     (let r1 = (if blockOpen p \<and> blockType p \<noteq> ''thinking'' then closeBlock p else ([], p));
          r2 = write r1 (\<lambda>p. if \<not> blockOpen p then
                                write (openBlock ''thinking'' thinking_block p)
                                  (\<lambda>p. ([], p\<lparr>thinkingStarted := True\<rparr>))
                              else ([], p))
      in write r2 (\<lambda>p. ([content_block_delta (blockIndex p) (thinking_delta text)], p)))"

definition processSignatureDelta :: "string \<Rightarrow> StreamingProcessor \<Rightarrow> emit" where
  "processSignatureDelta signature p =
     (if \<not> blockOpen p \<or> blockType p \<noteq> ''thinking'' then ([], p)
      else
        let p1 = p\<lparr>thinkingGotSig := True\<rparr>
        in write ([content_block_delta (blockIndex p1) (signature_delta signature)], p1)
             closeBlock)"

text \<open>
  \<open>processToolCallDelta\<close>. \<open>closeOpenBlock\<close> is the statement both of its branches start
  with; \<open>startToolCall\<close> is the rest of a branch once the id and the name are chosen: it
  stores the new state under the index, opens the block and marks the state started (the
  map holds a pointer to the state, so the stored state changes with it).
\<close>

definition closeOpenBlock :: "(nat \<Rightarrow> int) \<Rightarrow> StreamingProcessor \<Rightarrow> emit" where
  "closeOpenBlock clock p =
     (if blockOpen p \<and> blockType p = ''thinking'' then closeThinkingWithFakeSignature clock p
      else if blockOpen p then closeBlock p
      else ([], p))"

definition startToolCall :: "goint \<Rightarrow> string \<Rightarrow> string \<Rightarrow> StreamingProcessor \<Rightarrow> emit" where
  "startToolCall idx toolID toolName p =
     (let st = \<lparr>tcs_ID = toolID, tcs_Name = toolName, tcs_Arguments = '''',
                tcs_Started = False\<rparr>;
          p1 = p\<lparr>activeToolCalls := (activeToolCalls p)(idx \<mapsto> st)\<rparr>
      in write (openBlock ''tool_use'' (tool_use_block toolID toolName) p1)
           (\<lambda>p. ([], p\<lparr>activeToolCalls :=
                          (activeToolCalls p)(idx \<mapsto> st\<lparr>tcs_Started := True\<rparr>)\<rparr>)))"

definition fallbackToolID :: "(nat \<Rightarrow> int) \<Rightarrow> goint \<Rightarrow> StreamingProcessor \<Rightarrow> string \<times> StreamingProcessor" where
  "fallbackToolID clock idx p =
     (''call_'' @ FormatInt (clock (clockReads p)) @ ''_'' @ FormatInt (sint idx),
      p\<lparr>clockReads := Suc (clockReads p)\<rparr>)"

definition toolNameOf :: "ToolCall \<Rightarrow> goint \<Rightarrow> string" where
  "toolNameOf tc idx =
     (if fc_Name (tc_Function tc) = '''' then ''tool_'' @ FormatInt (sint idx)
      else fc_Name (tc_Function tc))"

text \<open>
  \<open>processToolCallDelta\<close> after \<open>p.usedTool = true\<close>: \<open>toolCallStart\<close> is its
  \<open>if\<close>/\<open>else if\<close> on an index that has no state yet, \<open>toolCallArguments\<close> its last
  statement, which appends the arguments to the state of the index and emits them.
\<close>

definition toolCallStart :: "(nat \<Rightarrow> int) \<Rightarrow> ToolCall \<Rightarrow> StreamingProcessor \<Rightarrow> emit" where
  "toolCallStart clock tc p =
     (let idx = tc_Index tc;
          exists = (activeToolCalls p idx \<noteq> None)
      in
      if tc_ID tc \<noteq> '''' \<and> \<not> exists then
        write (closeOpenBlock clock p)
          (\<lambda>p. let (toolID, p') =
                     (if tc_ID tc = '''' then fallbackToolID clock idx p
                      else (tc_ID tc, p))
               in startToolCall idx toolID (toolNameOf tc idx) p')
      else if \<not> exists then
        write (closeOpenBlock clock p)
          (\<lambda>p. let (toolID, p') = fallbackToolID clock idx p
               in startToolCall idx toolID (toolNameOf tc idx) p')
      else ([], p))"

definition toolCallArguments :: "ToolCall \<Rightarrow> StreamingProcessor \<Rightarrow> emit" where
  "toolCallArguments tc p =
     (case activeToolCalls p (tc_Index tc) of
        Some st \<Rightarrow>
          if fc_Arguments (tc_Function tc) \<noteq> '''' then
            ([content_block_delta (blockIndex p)
                (input_json_delta (fc_Arguments (tc_Function tc)))],
             p\<lparr>activeToolCalls := (activeToolCalls p)(tc_Index tc \<mapsto>
                  st\<lparr>tcs_Arguments :=
                       tcs_Arguments st @ fc_Arguments (tc_Function tc)\<rparr>)\<rparr>)
          else ([], p)
      | None \<Rightarrow> ([], p))"

definition processToolCallDelta :: "(nat \<Rightarrow> int) \<Rightarrow> ToolCall \<Rightarrow> StreamingProcessor \<Rightarrow> emit" where
  "processToolCallDelta clock tc p =
     write (toolCallStart clock tc (p\<lparr>usedTool := True\<rparr>)) (toolCallArguments tc)"

definition emitFinish :: "(nat \<Rightarrow> int) \<Rightarrow> string \<Rightarrow> StreamingProcessor \<Rightarrow> emit" where
  "emitFinish clock finishReason p =
     (if messageStopSent p then ([], p)
      else
        let r1 = (if blockOpen p then
                    (if blockType p = ''thinking'' then closeThinkingWithFakeSignature clock p
                     else closeBlock p)
                  else ([], p));
            stopReason =
              (if usedTool p then ''tool_use''
               else if finishReason = ''stop'' then ''end_turn''
               else if finishReason = ''tool_calls'' then ''tool_use''
               else if finishReason = ''length'' then ''max_tokens''
               else ''end_turn'')
        in write r1
             (\<lambda>p. ([message_delta stopReason (OutputTokens (usage p)), message_stop],
                   p\<lparr>messageStopSent := True\<rparr>)))"

definition finishIfNeeded :: "(nat \<Rightarrow> int) \<Rightarrow> StreamingProcessor \<Rightarrow> emit" where
  "finishIfNeeded clock p =
     (if messageStopSent p then ([], p)
      else if \<not> messageStartSent p then ([], p)
      else emitFinish clock ''stop'' p)"

definition Finish :: "(nat \<Rightarrow> int) \<Rightarrow> StreamingProcessor \<Rightarrow> emit" where
  "Finish clock p = (if \<not> messageStopSent p then emitFinish clock ''stop'' p else ([], p))"

text \<open>The usage update of \<open>ProcessLine\<close>: a chunk that carries usage overwrites the
  accumulated counters.\<close>

definition updateUsage :: "Usage option \<Rightarrow> StreamingProcessor \<Rightarrow> StreamingProcessor" where
  "updateUsage u p =
     (case u of
        None \<Rightarrow> p
      | Some u \<Rightarrow>
          let cachedTokens =
                (case u_PromptTokensDetails u of None \<Rightarrow> 0 | Some d \<Rightarrow> ptd_CachedTokens d);
              inputTokens = u_PromptTokens u - cachedTokens
          in p\<lparr>usage := (usage p)\<lparr>
                 InputTokens := (if sint inputTokens < 0 then 0 else inputTokens),
                 OutputTokens := u_CompletionTokens u,
                 CacheReadInputTokens := cachedTokens\<rparr>\<rparr>)"

text \<open>The body of the loop of \<open>ProcessLine\<close> over the choices of a chunk.\<close>

definition processChoice :: "(nat \<Rightarrow> int) \<Rightarrow> StreamChunkChoice \<Rightarrow> StreamingProcessor \<Rightarrow> emit" where
  "processChoice clock choice p =
     (let delta = scc_Delta choice;
          r1 = (case scd_Thinking delta of
                  None \<Rightarrow> ([], p)
                | Some th \<Rightarrow>
                    write (if td_Content th \<noteq> '''' then processThinkingDelta (td_Content th) p
                           else ([], p))
                      (\<lambda>p. if td_Signature th \<noteq> ''''
                           then processSignatureDelta (td_Signature th) p else ([], p)));
          r2 = write r1
                 (\<lambda>p. if scd_ReasoningContent delta \<noteq> ''''
                      then processThinkingDelta (scd_ReasoningContent delta) p
                      else if scd_Reasoning delta \<noteq> ''''
                      then processThinkingDelta (scd_Reasoning delta) p
                      else ([], p));
          r3 = write r2
                 (\<lambda>p. if scd_Content delta \<noteq> '''' then processTextDelta clock (scd_Content delta) p
                      else ([], p));
          r4 = foldl (\<lambda>r tc. write r (processToolCallDelta clock tc)) r3 (scd_ToolCalls delta)
      in write r4
           (\<lambda>p. case scc_FinishReason choice of
                   Some fr \<Rightarrow> if fr \<noteq> '''' then emitFinish clock fr p else ([], p)
                 | None \<Rightarrow> ([], p)))"

text \<open>\<open>ProcessLine\<close> from the decoded chunk on: \<open>message_start\<close> on the first chunk, the
  usage update, the choices.\<close>

definition processChunk ::
  "(nat \<Rightarrow> int) \<Rightarrow> (nat \<Rightarrow> nat) \<Rightarrow> StreamChunk \<Rightarrow> StreamingProcessor \<Rightarrow> emit" where
  "processChunk clock draw chunk p =
     (let r1 = (if \<not> messageStartSent p then emitMessageStart draw (sc_ID chunk) p
                else ([], p));
          r2 = write r1 (\<lambda>p. ([], updateUsage (sc_Usage chunk) p))
      in foldl (\<lambda>r choice. write r (processChoice clock choice)) r2 (sc_Choices chunk))"

text \<open>\<open>ProcessLine\<close> up to the decoded chunk: what the line is.\<close>

datatype line_kind = Ignored | Flush | Chunk StreamChunk

definition classifyLine :: "jsonlib \<Rightarrow> string \<Rightarrow> line_kind" where
  "classifyLine js line0 =
     (let line = TrimSpace line0 in
      if line = '''' then Ignored
      else if line = ''data: [DONE]'' \<or> line = ''data:[DONE]'' then Flush
      else if \<not> HasPrefix line ''data:'' then Ignored
      else
        let data = TrimSpace (TrimPrefix line ''data:'') in
        if data = '''' \<or> data = ''[DONE]'' then Flush
        else (case unmarshalStreamChunk js data of
                None \<Rightarrow> Ignored
              | Some chunk \<Rightarrow> Chunk chunk))"

definition ProcessLine ::
  "jsonlib \<Rightarrow> (nat \<Rightarrow> int) \<Rightarrow> (nat \<Rightarrow> nat) \<Rightarrow> string \<Rightarrow> StreamingProcessor \<Rightarrow> emit" where
  "ProcessLine js clock draw line p =
     (case classifyLine js line of
        Ignored \<Rightarrow> ([], p)
      | Flush \<Rightarrow> finishIfNeeded clock p
      | Chunk chunk \<Rightarrow> processChunk clock draw chunk p)"

text \<open>The lines of a stream fed to \<open>ProcessLine\<close> one after the other; \<open>draws n\<close> is the
  random source during the \<open>n\<close>-th call.\<close>

fun feedLines ::
  "jsonlib \<Rightarrow> (nat \<Rightarrow> int) \<Rightarrow> (nat \<Rightarrow> nat \<Rightarrow> nat) \<Rightarrow> nat \<Rightarrow> string list \<Rightarrow> StreamingProcessor
     \<Rightarrow> emit" where
  "feedLines js clock draws n [] p = ([], p)"
| "feedLines js clock draws n (line # rest) p =
     write (ProcessLine js clock (draws n) line p) (feedLines js clock draws (Suc n) rest)"

section \<open>Gateway\<close>

text \<open>
  Modelled from the spec: the account record, the HTTP upstream dispatcher and the
  failover signal, which the gateway consumes and whose declarations are not among the
  sources. \<open>acc_Credential\<close> is \<open>GetCredential\<close>, \<open>acc_MappedModel\<close> is \<open>GetMappedModel\<close>
  (the model-mapping table; the empty string when it has no entry), \<open>acc_Proxy\<close> is the
  URL of the proxy when the account has one.

  An HTTP status code is an \<open>int\<close> here: the gateway only compares it.
\<close>

record Account =
  acc_ID :: goint
  acc_Concurrency :: goint
  acc_Credential :: "string \<Rightarrow> string"
  acc_MappedModel :: "string \<Rightarrow> string"
  acc_ProxyID :: "goint option"
  acc_Proxy :: "string option"

record UpstreamRequest =
  ur_URL :: string
  ur_ContentType :: string
  ur_Authorization :: string
  ur_Body :: string
  ur_ProxyURL :: string
  ur_AccountID :: goint
  ur_Concurrency :: goint

text \<open>
  What the stream loop of \<open>streamResponse\<close> takes from its channel and its ticker, in the
  order it takes them: a line of the upstream body, a read error (with the two results of
  \<open>handleStreamReadError\<close>: disconnect and handled), or a tick of the watchdog after an
  idle interval (with whether the client has disconnected). The loop's wait, the reader
  task and the ticker themselves are not modelled: a run of the loop is the list of what
  it received, and the end of the list is the close of the channel.
\<close>

datatype stream_event =
    line string
  | read_error bool bool
  | idle_timeout bool

text \<open>
  The upstream's answer: the status, the \<open>Content-Type\<close> header, the bytes that reading
  the body delivers and whether that reading ends in an error; for a streamed body, what
  the stream loop receives, and whether the client has disconnected when the channel
  closes.
\<close>

record UpstreamResponse =
  StatusCode :: int
  ContentType :: string
  Body :: string
  BodyErr :: bool
  Feed :: "stream_event list"
  DisconnectedAtClose :: bool

text \<open>
  Everything outside the translator that \<open>Forward\<close> uses: the JSON library, the clock
  (\<open>env_now\<close> for the one reading of the non-streaming transformer), the random source,
  whether \<open>http.NewRequestWithContext\<close> accepts the URL, the HTTP upstream dispatcher
  (\<open>None\<close>: it returns an error), and what the conversion of a float64 outside the range
  of \<open>int\<close> yields (Go leaves it to the implementation).
\<close>

record env =
  env_js :: jsonlib
  env_clock :: "nat \<Rightarrow> int"
  env_now :: int
  env_draws :: "nat \<Rightarrow> nat \<Rightarrow> nat"
  env_newRequest :: "string \<Rightarrow> bool"
  env_Do :: "UpstreamRequest \<Rightarrow> UpstreamResponse option"
  env_outOfRange :: "real \<Rightarrow> int"

text \<open>Go's conversion \<open>int(code)\<close> of a float64: truncation towards zero.\<close>

definition intOfFloat :: "(real \<Rightarrow> int) \<Rightarrow> real \<Rightarrow> int" where
  "intOfFloat oor x =
     (let t = (if 0 \<le> x then \<lfloor>x\<rfloor> else \<lceil>x\<rceil>)
      in if - (2 ^ 63) \<le> t \<and> t < 2 ^ 63 then t else oor x)"

text \<open>
  What the handler writes to the client, in order: a header, the status, a body, or (for a
  stream) the events of one call of the client writer, which is recorded whether or not
  the client is still connected. \<open>ForwardResult\<close> without its two wall-clock fields
  (\<open>Duration\<close>, \<open>FirstTokenMs\<close>); the log lines of \<open>Forward\<close> are left out.
\<close>

datatype client_write =
    Header string string
  | Status int
  | WriteBody string
  | WriteEvents "event list"

record ForwardResult =
  fr_Model :: string
  fr_Stream :: bool
  fr_ClientDisconnect :: bool
  fr_Usage :: ClaudeUsage

datatype forward_error =
    MissingCredentials
  | ParseClaudeRequest
  | MissingModel
  | TransformRequest request_error
  | CreateUpstreamRequest
  | UpstreamRequestFailed
  | ReadUpstreamResponse
  | UpstreamFailoverError int string

text \<open>The loop of \<open>streamResponse\<close>: the writes to the client, the usage and the
  client-disconnect flag it returns.\<close>

fun streamLoop ::
  "env \<Rightarrow> nat \<Rightarrow> bool \<Rightarrow> stream_event list \<Rightarrow> StreamingProcessor
     \<Rightarrow> client_write list \<times> ClaudeUsage \<times> bool" where
  "streamLoop env n atClose [] p =
     (let (finalData, p') = Finish (env_clock env) p
      in ((if 0 < length finalData then [WriteEvents finalData] else []), usage p', atClose))"
| "streamLoop env n atClose (line l # rest) p =
     (let (claudeEvents, p') = ProcessLine (env_js env) (env_clock env) (env_draws env n) l p;
          (ws, res) = streamLoop env (Suc n) atClose rest p'
      in ((if 0 < length claudeEvents then [WriteEvents claudeEvents] else []) @ ws, res))"
| "streamLoop env n atClose (read_error disconnect handled # rest) p =
     (let (finalData, p') = Finish (env_clock env) p
      in ([], usage p', (if handled then disconnect else False)))"
| "streamLoop env n atClose (idle_timeout disconnected # rest) p =
     (let (finalData, p') = Finish (env_clock env) p
      in ([], usage p', disconnected))"

definition streamResponse ::
  "env \<Rightarrow> UpstreamResponse \<Rightarrow> string \<Rightarrow> client_write list \<times> ClaudeUsage \<times> bool" where
  "streamResponse env resp model =
     (let (ws, res) = streamLoop env 0 (DisconnectedAtClose resp) (Feed resp)
                        (NewStreamingProcessor model)
      in ([Header ''Content-Type'' ''text/event-stream'', Header ''Cache-Control'' ''no-cache'',
           Header ''Connection'' ''keep-alive'', Header ''X-Accel-Buffering'' ''no'',
           Status 200] @ ws, res))"

text \<open>
  \<open>Forward\<close> up to the upstream's answer: the credentials, the request, the model
  mapping, the translated request and its dispatch. It yields the answer, the request
  sent (with the mapped model), the original model and the billing model.
\<close>

definition sendUpstream ::
  "env \<Rightarrow> Account \<Rightarrow> string
     \<Rightarrow> forward_error + (UpstreamResponse \<times> ClaudeRequest \<times> string \<times> string)" where
  "sendUpstream env account body =
     (let baseURL0 = TrimSpace (acc_Credential account ''base_url'');
          apiKey = TrimSpace (acc_Credential account ''api_key'')
      in
      if baseURL0 = '''' \<or> apiKey = '''' then Inl MissingCredentials
      else
        let baseURL = TrimSuffix baseURL0 ''/'';
            upstreamURL = baseURL @ ''/chat/completions''
        in
        case unmarshalClaudeRequest (env_js env) body of
          None \<Rightarrow> Inl ParseClaudeRequest
        | Some claudeReq0 \<Rightarrow>
            if TrimSpace (creq_Model claudeReq0) = '''' then Inl MissingModel
            else
              let origModel = creq_Model claudeReq0;
                  mappedModel = acc_MappedModel account origModel;
                  mapped = (mappedModel \<noteq> '''' \<and> mappedModel \<noteq> origModel);
                  claudeReq = (if mapped then claudeReq0\<lparr>creq_Model := mappedModel\<rparr>
                               else claudeReq0);
                  billingModel = (if mapped then mappedModel else origModel)
              in
              case TransformClaudeToOpenAI (env_js env) claudeReq of
                Inl err \<Rightarrow> Inl (TransformRequest err)
              | Inr openaiBody \<Rightarrow>
                  if \<not> env_newRequest env upstreamURL then Inl CreateUpstreamRequest
                  else
                    let proxyURL =
                          (case acc_ProxyID account of
                             None \<Rightarrow> ''''
                           | Some _ \<Rightarrow> (case acc_Proxy account of None \<Rightarrow> '''' | Some u \<Rightarrow> u));
                        req = \<lparr>ur_URL = upstreamURL, ur_ContentType = ''application/json'',
                               ur_Authorization = ''Bearer '' @ apiKey, ur_Body = openaiBody,
                               ur_ProxyURL = proxyURL, ur_AccountID = acc_ID account,
                               ur_Concurrency = acc_Concurrency account\<rparr>
                    in
                    case env_Do env req of
                      None \<Rightarrow> Inl UpstreamRequestFailed
                    | Some resp \<Rightarrow> Inr (resp, claudeReq, origModel, billingModel))"

definition resultOf :: "string \<Rightarrow> ForwardResult" where
  "resultOf billingModel =
     \<lparr>fr_Model = billingModel, fr_Stream = False, fr_ClientDisconnect = False,
      fr_Usage = zeroUsage\<rparr>"

text \<open>\<open>Forward\<close> on an answer with status 400 or more.\<close>

definition forwardErrorStatus ::
  "env \<Rightarrow> UpstreamResponse \<Rightarrow> string \<Rightarrow> client_write list \<times> (forward_error + ForwardResult)" where
  "forwardErrorStatus env resp billingModel =
     (let respBody = take 2097152 (Body resp) in
      if StatusCode resp = 429 then ([], Inl (UpstreamFailoverError (StatusCode resp) respBody))
      else
        ([Header ''Content-Type'' ''application/json'', Status (StatusCode resp),
          WriteBody (TransformOpenAIErrorToClaude (env_js env) respBody (StatusCode resp))],
         Inr (resultOf billingModel)))"

text \<open>\<open>Forward\<close> on an answer below 400 to a request that does not stream.\<close>

definition forwardUnary ::
  "env \<Rightarrow> UpstreamResponse \<Rightarrow> string \<Rightarrow> string
     \<Rightarrow> client_write list \<times> (forward_error + ForwardResult)" where
  "forwardUnary env resp origModel billingModel =
     (if BodyErr resp then ([], Inl ReadUpstreamResponse)
      else
        let respBody = Body resp;
            inBodyError =
              (case unmarshalErrorResponse (env_js env) respBody of
                 None \<Rightarrow> None
               | Some errResp \<Rightarrow> er_Error errResp)
        in
        case inBodyError of
          Some e \<Rightarrow>
            let statusCode =
                  (case ed_Code e of
                     Some (JNumber code) \<Rightarrow> intOfFloat (env_outOfRange env) code
                   | _ \<Rightarrow> 502)
            in
            if statusCode = 429 then ([], Inl (UpstreamFailoverError statusCode respBody))
            else
              ([Header ''Content-Type'' ''application/json'', Status statusCode,
                WriteBody (TransformOpenAIErrorToClaude (env_js env) respBody statusCode)],
               Inr (resultOf billingModel))
        | None \<Rightarrow>
            (case TransformOpenAIToClaude (env_js env) (env_now env) (env_draws env 0)
                    respBody origModel of
               Inl err \<Rightarrow>
                 ([Header ''Content-Type'' (ContentType resp), Status 200, WriteBody respBody],
                  Inr ((resultOf billingModel)\<lparr>fr_Usage := zeroUsage\<rparr>))
             | Inr (claudeRespBody, respUsage) \<Rightarrow>
                 ([Header ''Content-Type'' ''application/json'', Status 200,
                   WriteBody claudeRespBody],
                  Inr ((resultOf billingModel)\<lparr>fr_Usage :=
                         \<lparr>InputTokens = InputTokens respUsage,
                          OutputTokens = OutputTokens respUsage,
                          CacheReadInputTokens = CacheReadInputTokens respUsage\<rparr>\<rparr>))))"

text \<open>\<open>Forward\<close> from the upstream's answer on, and \<open>Forward\<close>.\<close>

definition forwardResponse ::
  "env \<Rightarrow> UpstreamResponse \<Rightarrow> ClaudeRequest \<Rightarrow> string \<Rightarrow> string
     \<Rightarrow> client_write list \<times> (forward_error + ForwardResult)" where
  "forwardResponse env resp claudeReq origModel billingModel =
     (if StatusCode resp \<ge> 400 then forwardErrorStatus env resp billingModel
      else if creq_Stream claudeReq then
        (let (ws, streamUsage, clientDisconnect) = streamResponse env resp origModel
         in (ws, Inr \<lparr>fr_Model = billingModel, fr_Stream = True,
                      fr_ClientDisconnect = clientDisconnect,
                      fr_Usage = \<lparr>InputTokens = InputTokens streamUsage,
                                  OutputTokens = OutputTokens streamUsage,
                                  CacheReadInputTokens = CacheReadInputTokens streamUsage\<rparr>\<rparr>))
      else forwardUnary env resp origModel billingModel)"

definition Forward ::
  "env \<Rightarrow> Account \<Rightarrow> string \<Rightarrow> client_write list \<times> (forward_error + ForwardResult)" where
  "Forward env account body =
     (case sendUpstream env account body of
        Inl err \<Rightarrow> ([], Inl err)
      | Inr (resp, claudeReq, origModel, billingModel) \<Rightarrow>
          forwardResponse env resp claudeReq origModel billingModel)"

section \<open>Properties of event traces\<close>

text \<open>An event that, if it is a \<open>message_start\<close>, carries the model \<open>m\<close>; and a function
  of the processor that keeps the processor's model and emits \<open>message_start\<close> only with
  that model.\<close>

fun startModel :: "string \<Rightarrow> event \<Rightarrow> bool" where
  "startModel m (message_start i md tok) = (md = m)"
| "startModel m _ = True"

definition echoes :: "(StreamingProcessor \<Rightarrow> emit) \<Rightarrow> bool" where
  "echoes f =
     (\<forall>p. originalModel (snd (f p)) = originalModel p \<and>
          (\<forall>e \<in> set (fst (f p)). startModel (originalModel p) e))"

section \<open>The specification's wording, for comparison\<close>

text \<open>The cached tokens of an upstream usage object: 0 when \<open>prompt_tokens_details\<close> is
  absent.\<close>

definition spec_cached_tokens :: "Usage \<Rightarrow> goint" where
  "spec_cached_tokens u =
     (case u_PromptTokensDetails u of None \<Rightarrow> 0 | Some d \<Rightarrow> ptd_CachedTokens d)"



definition thinkingSignature :: "ChatMessage \<Rightarrow> string" where
  "thinkingSignature msg =
     (case cm_ThinkingField msg of None \<Rightarrow> '''' | Some tf \<Rightarrow> tf_Signature tf)"


text \<open>C7 as the specification words it: the sentinel for an empty content, a string that
  is not blank as it is, the non-empty text fields of a sequence of objects joined by a
  line feed when that is not blank, otherwise the raw content.\<close>

definition sentinel :: "ContentBlock \<Rightarrow> string" where
  "sentinel block =
     (if cb_IsError block then ''Tool execution failed.''
      else ''Command executed successfully.'')"

definition claimed_tool_result_text :: "jsonlib \<Rightarrow> ContentBlock \<Rightarrow> string" where
  "claimed_tool_result_text js block =
     (if cb_Content block = '''' then sentinel block
      else case unmarshalString js (cb_Content block) of
        Some str \<Rightarrow> if TrimSpace str \<noteq> '''' then str else cb_Content block
      | None \<Rightarrow>
          (case unmarshalObjects js (cb_Content block) of
             Some arr \<Rightarrow>
               let result = Join (filter (\<lambda>t. t \<noteq> '''') (textsOf arr)) [CHR 0x0A]
               in if TrimSpace result \<noteq> '''' then result else cb_Content block
           | None \<Rightarrow> cb_Content block))"

text \<open>The characters of \<open>[A-Za-z0-9]\<close>, by their codes.\<close>

definition alnum :: "char \<Rightarrow> bool" where
  "alnum ch =
     (let n = (of_char ch :: nat)
      in (48 \<le> n \<and> n \<le> 57) \<or> (65 \<le> n \<and> n \<le> 90) \<or> (97 \<le> n \<and> n \<le> 122))"

section \<open>Fixtures\<close>

text \<open>A JSON library that decodes nothing, for inputs that never reach a decoder.\<close>

definition jsNone :: jsonlib where
  "jsNone =
     \<lparr>unmarshalString = (\<lambda>_. None), unmarshalAny = (\<lambda>_. None),
      unmarshalObjects = (\<lambda>_. None), unmarshalContentBlocks = (\<lambda>_. None),
      unmarshalSystemBlocks = (\<lambda>_. None), unmarshalToolChoice = (\<lambda>_. None),
      unmarshalClaudeRequest = (\<lambda>_. None), unmarshalChatResponse = (\<lambda>_. None),
      unmarshalErrorResponse = (\<lambda>_. None), unmarshalStreamChunk = (\<lambda>_. None),
      marshalString = (\<lambda>s. s), marshalContentParts = (\<lambda>_. ''''),
      marshalAny = (\<lambda>_. None), marshalChatRequest = (\<lambda>_. None),
      marshalClaudeResponse = (\<lambda>_. None), marshalClaudeError = (\<lambda>_. None)\<rparr>"

text \<open>Stream chunks with one choice, and a JSON library that decodes the payloads of a
  table to the chunks beside them and nothing else.\<close>

definition noDelta :: StreamChunkDelta where
  "noDelta = \<lparr>scd_Role = '''', scd_Content = '''', scd_Thinking = None,
               scd_ReasoningContent = '''', scd_Reasoning = '''', scd_ToolCalls = []\<rparr>"

definition chunkOf :: "StreamChunkDelta \<Rightarrow> string option \<Rightarrow> Usage option \<Rightarrow> StreamChunk" where
  "chunkOf d fr u =
     \<lparr>sc_ID = ''c1'', sc_Object = '''', sc_Model = '''',
      sc_Choices = [\<lparr>scc_Index = 0, scc_Delta = d, scc_FinishReason = fr\<rparr>],
      sc_Usage = u\<rparr>"

definition jsStream :: "(string \<times> StreamChunk) list \<Rightarrow> jsonlib" where
  "jsStream table = jsNone\<lparr>unmarshalStreamChunk := map_of table\<rparr>"

text \<open>A stream that reasons without a signature, answers and stops.\<close>

definition reasoningTable :: "(string \<times> StreamChunk) list" where
  \<open>reasoningTable =
     [(''{"id":"c1","choices":[{"delta":{"reasoning_content":"think "}}]}'',
       chunkOf (noDelta\<lparr>scd_ReasoningContent := ''think ''\<rparr>) None None),
      (''{"id":"c1","choices":[{"delta":{"reasoning_content":"more"}}]}'',
       chunkOf (noDelta\<lparr>scd_ReasoningContent := ''more''\<rparr>) None None),
      (''{"id":"c1","choices":[{"delta":{"content":"answer"}}]}'',
       chunkOf (noDelta\<lparr>scd_Content := ''answer''\<rparr>) None None),
      (''{"id":"c1","choices":[{"delta":{},"finish_reason":"stop"}]}'',
       chunkOf noDelta (Some ''stop'') None)]\<close>

definition reasoningLines :: "string list" where
  \<open>reasoningLines =
     [''data: {"id":"c1","choices":[{"delta":{"reasoning_content":"think "}}]}'', '''',
      ''data: {"id":"c1","choices":[{"delta":{"reasoning_content":"more"}}]}'', '''',
      ''data: {"id":"c1","choices":[{"delta":{"content":"answer"}}]}'', '''',
      ''data: {"id":"c1","choices":[{"delta":{},"finish_reason":"stop"}]}'', '''',
      ''data: [DONE]'']\<close>

text \<open>The usage object of the specification's first scenario, and a final chunk that
  carries it.\<close>

definition scenarioUsage :: Usage where
  "scenarioUsage = \<lparr>u_PromptTokens = 5, u_CompletionTokens = 2, u_TotalTokens = 7,
                     u_PromptTokensDetails = Some \<lparr>ptd_CachedTokens = 1\<rparr>\<rparr>"

definition usageChunk :: StreamChunk where
  "usageChunk = \<lparr>sc_ID = ''c1'', sc_Object = '''', sc_Model = '''', sc_Choices = [],
                  sc_Usage = Some scenarioUsage\<rparr>"

definition usagePayload :: string where
  \<open>usagePayload = ''{"id":"c1","choices":[],"usage":{"prompt_tokens":5,"completion_tokens":2,"total_tokens":7,"prompt_tokens_details":{"cached_tokens":1}}}''\<close>

text \<open>Non-streaming responses: the specification's first scenario, one without an id, and
  one whose message carries both \<open>reasoning\<close> and \<open>thinking.content\<close>.\<close>

definition responseOf :: "string \<Rightarrow> ChatMessage \<Rightarrow> ChatResponse" where
  "responseOf i msg =
     \<lparr>cr_ID = i, cr_Object = '''', cr_Model = '''',
      cr_Choices = [\<lparr>cc_Index = 0, cc_Message = msg, cc_FinishReason = ''stop''\<rparr>],
      cr_Usage = Some scenarioUsage\<rparr>"

definition helloMessage :: ChatMessage where
  \<open>helloMessage = emptyMessage\<lparr>cm_Content := ''"hello"''\<rparr>\<close>



text \<open>Tool results: a library that decodes two string contents and one sequence of three
  text objects, the middle one with an empty text.\<close>

definition threeTexts :: string where
  \<open>threeTexts = ''[{"type":"text","text":"a"},{"type":"text","text":""},{"type":"text","text":"b"}]''\<close>

definition jsToolResult :: jsonlib where
  \<open>jsToolResult =
     jsNone\<lparr>unmarshalString :=
               map_of [(''"sunny"'', ''sunny''), (''"  "'', ''  '')],
            unmarshalObjects :=
               map_of [(threeTexts,
                        [[(''type'', JString ''text''), (''text'', JString ''a'')],
                         [(''type'', JString ''text''), (''text'', JString '''')],
                         [(''type'', JString ''text''), (''text'', JString ''b'')]])]\<rparr>\<close>

definition toolResult :: "string \<Rightarrow> bool \<Rightarrow> ContentBlock" where
  "toolResult content isError =
     \<lparr>cb_Type = ''tool_result'', cb_Text = '''', cb_Source = None, cb_Content = content,
      cb_IsError = isError, cb_ToolUseID = ''t1'', cb_Thinking = '''', cb_Signature = '''',
      cb_ID = '''', cb_Name = '''', cb_Input = None\<rparr>"

text \<open>Two tool calls whose deltas interleave: index 0 starts, index 1 starts, then the
  arguments of index 0 arrive.\<close>

definition toolDelta :: "goint \<Rightarrow> string \<Rightarrow> string \<Rightarrow> string \<Rightarrow> StreamChunkDelta" where
  "toolDelta idx i nm args =
     noDelta\<lparr>scd_ToolCalls :=
       [\<lparr>tc_Index = idx, tc_ID = i, tc_Type = ''function'',
         tc_Function = \<lparr>fc_Name = nm, fc_Arguments = args\<rparr>\<rparr>]\<rparr>"

definition interleavedTable :: "(string \<times> StreamChunk) list" where
  \<open>interleavedTable =
     [(''{"id":"c1","choices":[{"delta":{"tool_calls":[{"index":0,"id":"a","type":"function","function":{"name":"f","arguments":""}}]}}]}'',
       chunkOf (toolDelta 0 ''a'' ''f'' '''') None None),
      (''{"id":"c1","choices":[{"delta":{"tool_calls":[{"index":1,"id":"b","type":"function","function":{"name":"g","arguments":""}}]}}]}'',
       chunkOf (toolDelta 1 ''b'' ''g'' '''') None None),
      (''{"id":"c1","choices":[{"delta":{"tool_calls":[{"index":0,"function":{"arguments":"{}"}}]}}]}'',
       chunkOf (toolDelta 0 '''' '''' ''{}'') None None)]\<close>

definition interleavedLines :: "string list" where
  \<open>interleavedLines =
     [''data: {"id":"c1","choices":[{"delta":{"tool_calls":[{"index":0,"id":"a","type":"function","function":{"name":"f","arguments":""}}]}}]}'',
      ''data: {"id":"c1","choices":[{"delta":{"tool_calls":[{"index":1,"id":"b","type":"function","function":{"name":"g","arguments":""}}]}}]}'',
      ''data: {"id":"c1","choices":[{"delta":{"tool_calls":[{"index":0,"function":{"arguments":"{}"}}]}}]}'']\<close>

text \<open>A processor that has sent \<open>message_start\<close> and has a text block open.\<close>

definition openTextBlock :: StreamingProcessor where
  "openTextBlock = (NewStreamingProcessor ''claude-x'')
                     \<lparr>messageStartSent := True, blockOpen := True, blockType := ''text''\<rparr>"

text \<open>
  A gateway run: an account whose mapping table substitutes \<open>gpt-y\<close> for \<open>claude-x\<close>, a
  client request for \<open>claude-x\<close> (streaming or not), a JSON library that decodes the
  bodies below and encodes a request or a response as its model, and an upstream that
  answers every request with \<open>resp\<close>.
\<close>

definition mappedAccount :: Account where
  "mappedAccount =
     \<lparr>acc_ID = 1, acc_Concurrency = 1,
      acc_Credential = (\<lambda>k. if k = ''base_url'' then ''https://up.example/v1/''
                            else if k = ''api_key'' then ''sk-1'' else ''''),
      acc_MappedModel = (\<lambda>m. if m = ''claude-x'' then ''gpt-y'' else ''''),
      acc_ProxyID = None, acc_Proxy = None\<rparr>"

definition clientRequest :: "bool \<Rightarrow> ClaudeRequest" where
  \<open>clientRequest stream =
     \<lparr>creq_Model = ''claude-x'', creq_MaxTokens = 16, creq_Temperature = None,
      creq_TopP = None, creq_Stream = stream, creq_Thinking = None, creq_System = '''',
      creq_Messages = [\<lparr>msg_Role = ''user'', msg_Content = ''"hi"''\<rparr>], creq_Tools = [],
      creq_ToolChoice = ''''\<rparr>\<close>

definition unaryBody :: string where
  \<open>unaryBody = ''{"model":"claude-x","messages":[{"role":"user","content":"hi"}],"max_tokens":16}''\<close>

definition streamBody :: string where
  \<open>streamBody = ''{"model":"claude-x","messages":[{"role":"user","content":"hi"}],"max_tokens":16,"stream":true}''\<close>

definition helloBody :: string where
  \<open>helloBody = ''{"id":"cmpl_1","choices":[{"message":{"content":"hello"},"finish_reason":"stop"}],"usage":{"prompt_tokens":5,"completion_tokens":2,"prompt_tokens_details":{"cached_tokens":1}}}''\<close>

definition slowDownBody :: string where
  \<open>slowDownBody = ''{"error":{"message":"slow down"}}''\<close>

definition slowDown429Body :: string where
  \<open>slowDown429Body = ''{"error":{"message":"slow down","code":429}}''\<close>

definition slowDownTextBody :: string where
  \<open>slowDownTextBody = ''{"error":{"message":"slow down","code":"rate_limited"}}''\<close>

definition slowDown :: "json option \<Rightarrow> ErrorResponse" where
  "slowDown code =
     \<lparr>er_Error = Some \<lparr>ed_Message = ''slow down'', ed_Type = '''', ed_Code = code\<rparr>\<rparr>"

definition jsGateway :: jsonlib where
  \<open>jsGateway =
     jsNone\<lparr>unmarshalString := map_of [(''"hi"'', ''hi''), (''"hello"'', ''hello'')],
            unmarshalClaudeRequest :=
              map_of [(unaryBody, clientRequest False), (streamBody, clientRequest True)],
            unmarshalChatResponse := map_of [(helloBody, responseOf ''cmpl_1'' helloMessage)],
            unmarshalErrorResponse :=
              map_of [(helloBody, \<lparr>er_Error = None\<rparr>),
                      (slowDownBody, slowDown None),
                      (slowDown429Body, slowDown (Some (JNumber 429))),
                      (slowDownTextBody, slowDown (Some (JString ''rate_limited'')))],
            unmarshalStreamChunk := map_of reasoningTable,
            marshalChatRequest := (\<lambda>r. Some (''request for '' @ req_Model r)),
            marshalClaudeResponse := (\<lambda>r. Some (''response of '' @ resp_Model r))\<rparr>\<close>

definition answer :: "int \<Rightarrow> string \<Rightarrow> stream_event list \<Rightarrow> UpstreamResponse" where
  "answer status body feed =
     \<lparr>StatusCode = status, ContentType = ''application/json'', Body = body,
      BodyErr = False, Feed = feed, DisconnectedAtClose = False\<rparr>"

definition envOf :: "UpstreamResponse \<Rightarrow> env" where
  "envOf resp =
     \<lparr>env_js = jsGateway, env_clock = (\<lambda>_. 1730000000123), env_now = 1730000000123,
      env_draws = (\<lambda>_ _. 0), env_newRequest = (\<lambda>_. True), env_Do = (\<lambda>_. Some resp),
      env_outOfRange = (\<lambda>_. 0)\<rparr>"

text \<open>A stream whose first thinking block gets an upstream signature and whose second does
  not; and one in which the arguments of a tool call arrive after its block and a signed
  thinking block have been closed.\<close>

definition signedThinking :: StreamChunkDelta where
  "signedThinking = noDelta\<lparr>scd_Thinking := Some \<lparr>td_Content = ''a'', td_Signature = ''S''\<rparr>\<rparr>"

definition twoThinkingTable :: "(string \<times> StreamChunk) list" where
  \<open>twoThinkingTable =
     [(''{"id":"c1","choices":[{"delta":{"thinking":{"content":"a","signature":"S"}}}]}'',
       chunkOf signedThinking None None),
      (''{"id":"c1","choices":[{"delta":{"reasoning_content":"b"}}]}'',
       chunkOf (noDelta\<lparr>scd_ReasoningContent := ''b''\<rparr>) None None),
      (''{"id":"c1","choices":[{"delta":{"content":"c"}}]}'',
       chunkOf (noDelta\<lparr>scd_Content := ''c''\<rparr>) None None)]\<close>

definition twoThinkingLines :: "string list" where
  \<open>twoThinkingLines =
     [''data: {"id":"c1","choices":[{"delta":{"thinking":{"content":"a","signature":"S"}}}]}'',
      ''data: {"id":"c1","choices":[{"delta":{"reasoning_content":"b"}}]}'',
      ''data: {"id":"c1","choices":[{"delta":{"content":"c"}}]}'']\<close>

definition lateArgumentsTable :: "(string \<times> StreamChunk) list" where
  \<open>lateArgumentsTable =
     [(''{"id":"c1","choices":[{"delta":{"tool_calls":[{"index":0,"id":"a","type":"function","function":{"name":"f","arguments":""}}]}}]}'',
       chunkOf (toolDelta 0 ''a'' ''f'' '''') None None),
      (''{"id":"c1","choices":[{"delta":{"thinking":{"content":"a","signature":"S"}}}]}'',
       chunkOf signedThinking None None),
      (''{"id":"c1","choices":[{"delta":{"tool_calls":[{"index":0,"function":{"arguments":"{}"}}]}}]}'',
       chunkOf (toolDelta 0 '''' '''' ''{}'') None None)]\<close>

definition lateArgumentsLines :: "string list" where
  \<open>lateArgumentsLines =
     [''data: {"id":"c1","choices":[{"delta":{"tool_calls":[{"index":0,"id":"a","type":"function","function":{"name":"f","arguments":""}}]}}]}'',
      ''data: {"id":"c1","choices":[{"delta":{"thinking":{"content":"a","signature":"S"}}}]}'',
      ''data: {"id":"c1","choices":[{"delta":{"tool_calls":[{"index":0,"function":{"arguments":"{}"}}]}}]}'']\<close>

text \<open>A stream whose first chunk answers and stops and whose second chunk carries more
  text.\<close>

definition afterStopTable :: "(string \<times> StreamChunk) list" where
  \<open>afterStopTable =
     [(''{"id":"c1","choices":[{"delta":{"content":"a"},"finish_reason":"stop"}]}'',
       chunkOf (noDelta\<lparr>scd_Content := ''a''\<rparr>) (Some ''stop'') None),
      (''{"id":"c1","choices":[{"delta":{"content":"b"}}]}'',
       chunkOf (noDelta\<lparr>scd_Content := ''b''\<rparr>) None None)]\<close>

definition afterStopLines :: "string list" where
  \<open>afterStopLines =
     [''data: {"id":"c1","choices":[{"delta":{"content":"a"},"finish_reason":"stop"}]}'',
      ''data: {"id":"c1","choices":[{"delta":{"content":"b"}}]}'']\<close>

text \<open>A processor that has sent \<open>message_start\<close> and has a thinking block open, with
  index 3, for which no signature has come.\<close>

definition openThinkingBlock :: StreamingProcessor where
  "openThinkingBlock = (NewStreamingProcessor ''claude-x'')
                         \<lparr>messageStartSent := True, blockIndex := 3, blockOpen := True,
                          blockType := ''thinking'', thinkingStarted := True\<rparr>"


definition signatureOnly :: ChatMessage where
  "signatureOnly =
     emptyMessage\<lparr>cm_ReasoningContent := ''rc'',
                   cm_ThinkingField := Some \<lparr>tf_Content = '''', tf_Signature = ''S''\<rparr>\<rparr>"

section \<open>Lemmas\<close>

lemma fst_write: "fst (write r f) = fst r @ fst (f (snd r))"
  by (simp add: write_def split: prod.splits)

lemma snd_write: "snd (write r f) = snd (f (snd r))"
  by (simp add: write_def split: prod.splits)

subsection \<open>The usage counters\<close>

lemma sint_sub_nonneg:
  fixes x y :: goint
  assumes "0 \<le> sint x" "0 \<le> sint y"
  shows "sint (x - y) = sint x - sint y"
  using assms sint_lt[of x] sint_lt[of y]
  by (simp add: sint_word_ariths signed_take_bit_int_eq_self)

lemma foldl_write_keeps:
  assumes "\<And>x p. h (snd (g x p)) = h p"
  shows "h (snd (foldl (\<lambda>r x. write r (g x)) r xs)) = h (snd r)"
  by (induction xs arbitrary: r) (simp_all add: snd_write assms)

lemma usage_closeBlock: "usage (snd (closeBlock p)) = usage p"
  by (simp add: closeBlock_def)

lemma usage_openBlock: "usage (snd (openBlock bt cb p)) = usage p"
  by (simp add: openBlock_def)

lemma usage_closeThinking: "usage (snd (closeThinkingWithFakeSignature clock p)) = usage p"
  by (simp add: closeThinkingWithFakeSignature_def Let_def snd_write usage_closeBlock)

lemma usage_closeOpenBlock: "usage (snd (closeOpenBlock clock p)) = usage p"
  by (simp add: closeOpenBlock_def usage_closeBlock usage_closeThinking)

lemma usage_processTextDelta: "usage (snd (processTextDelta clock t p)) = usage p"
  by (simp add: processTextDelta_def Let_def snd_write usage_closeBlock usage_openBlock
        usage_closeThinking)

lemma usage_processThinkingDelta: "usage (snd (processThinkingDelta t p)) = usage p"
  by (simp add: processThinkingDelta_def Let_def snd_write usage_closeBlock usage_openBlock)

lemma usage_processSignatureDelta: "usage (snd (processSignatureDelta t p)) = usage p"
  by (simp add: processSignatureDelta_def Let_def snd_write usage_closeBlock)

lemma usage_startToolCall: "usage (snd (startToolCall idx i n p)) = usage p"
  by (simp add: startToolCall_def Let_def snd_write usage_openBlock)

lemma usage_toolCallStart: "usage (snd (toolCallStart clock tc p)) = usage p"
  by (simp add: toolCallStart_def Let_def snd_write usage_closeOpenBlock usage_startToolCall
        fallbackToolID_def split: prod.splits)

lemma usage_toolCallArguments: "usage (snd (toolCallArguments tc p)) = usage p"
  by (simp add: toolCallArguments_def split: option.splits)

lemma usage_processToolCallDelta: "usage (snd (processToolCallDelta clock tc p)) = usage p"
  by (simp add: processToolCallDelta_def snd_write usage_toolCallStart usage_toolCallArguments)

lemma usage_emitFinish: "usage (snd (emitFinish clock fr p)) = usage p"
  by (simp add: emitFinish_def Let_def snd_write usage_closeBlock usage_closeThinking)

lemma usage_processChoice: "usage (snd (processChoice clock c p)) = usage p"
  by (simp add: processChoice_def Let_def snd_write usage_processTextDelta
        usage_processThinkingDelta usage_processSignatureDelta usage_emitFinish
        foldl_write_keeps[where h=usage] usage_processToolCallDelta
        split: option.splits)

lemma usage_emitMessageStart: "usage (snd (emitMessageStart draw i p)) = usage p"
  by (simp add: emitMessageStart_def Let_def)

lemma usage_processChunk:
  "usage (snd (processChunk clock draw chunk p)) = usage (updateUsage (sc_Usage chunk) p)"
  by (simp add: processChunk_def Let_def snd_write foldl_write_keeps[where h=usage]
        usage_processChoice usage_emitMessageStart updateUsage_def split: option.splits)

lemma usage_updateUsage_Some: "usage (updateUsage (Some u) p) = extractUsage (Some u)"
  by (simp add: updateUsage_def extractUsage_def Let_def)

lemma extractUsage_Some:
  assumes "0 \<le> sint (u_PromptTokens u)" "0 \<le> sint (spec_cached_tokens u)"
  shows "sint (InputTokens (extractUsage (Some u))) =
           max 0 (sint (u_PromptTokens u) - sint (spec_cached_tokens u))"
    and "CacheReadInputTokens (extractUsage (Some u)) = spec_cached_tokens u"
    and "OutputTokens (extractUsage (Some u)) = u_CompletionTokens u"
  using sint_sub_nonneg[OF assms]
  by (auto simp: extractUsage_def spec_cached_tokens_def Let_def split: option.splits)

subsection \<open>The response transformer\<close>





lemma chars_alnum: "\<forall>ch \<in> set chars. alnum ch"
  by (simp add: chars_def alnum_def)

lemma length_chars: "length chars = 62"
  by (simp add: chars_def)

lemma randomID_chars: "set (randomID draw) \<subseteq> set chars"
  by (auto simp: randomID_def length_chars intro!: nth_mem)

lemma length_randomID: "length (randomID draw) = 12"
  by (simp add: randomID_def)

lemma resp_ID_build:
  "resp_ID (buildClaudeResponse js now draw resp m) = convertID draw (cr_ID resp)"
  by (simp add: buildClaudeResponse_def Let_def split: prod.splits)

subsection \<open>Lines of the stream\<close>

lemma trim_sunny: "TrimSpace ''sunny'' = ''sunny''" by code_simp

lemma trim_blank: "TrimSpace ''  '' = ''''" by code_simp

lemma trim_texts: "TrimSpace [CHR ''a'', CHR 0x0A, CHR 0x0A, CHR ''b''] = [CHR ''a'', CHR 0x0A, CHR 0x0A, CHR ''b'']"
  by code_simp

lemma trim_done: "TrimSpace ''data: [DONE]'' = ''data: [DONE]''" by code_simp

lemma classify_done: "classifyLine js ''data: [DONE]'' = Flush"
  by (simp add: classifyLine_def trim_done)

lemma classify_empty_data:
  assumes "HasPrefix (TrimSpace l) ''data:''"
    and "TrimSpace (TrimPrefix (TrimSpace l) ''data:'') = ''''"
  shows "classifyLine js l = Flush"
proof -
  have "TrimSpace l \<noteq> ''''" using assms(1) by (auto simp: HasPrefix_def)
  with assms show ?thesis by (simp add: classifyLine_def Let_def)
qed

lemma emitFinish_events:
  "\<not> messageStopSent p \<Longrightarrow>
   fst (emitFinish clock fr p) =
     fst (closeOpenBlock clock p) @
     [message_delta
        (if usedTool p then ''tool_use''
         else if fr = ''stop'' then ''end_turn''
         else if fr = ''tool_calls'' then ''tool_use''
         else if fr = ''length'' then ''max_tokens''
         else ''end_turn'')
        (OutputTokens (usage p)), message_stop]"
  by (simp add: emitFinish_def closeOpenBlock_def Let_def fst_write snd_write usage_closeBlock usage_closeThinking)

subsection \<open>The model of \<open>message_start\<close>\<close>

lemma echoes_skip: "echoes (\<lambda>p. ([], p))"
  by (simp add: echoes_def)

lemma echoes_write:
  "echoes f \<Longrightarrow> echoes g \<Longrightarrow> echoes (\<lambda>p. write (f p) g)"
proof -
  assume f: "echoes f" and g: "echoes g"
  have "originalModel (snd (write (f p) g)) = originalModel p \<and>
        (\<forall>e \<in> set (fst (write (f p) g)). startModel (originalModel p) e)" for p
  proof -
    have 1: "originalModel (snd (f p)) = originalModel p"
      and 2: "\<forall>e \<in> set (fst (f p)). startModel (originalModel p) e"
      using f by (simp_all add: echoes_def)
    have 3: "originalModel (snd (g (snd (f p)))) = originalModel (snd (f p))"
      and 4: "\<forall>e \<in> set (fst (g (snd (f p)))). startModel (originalModel (snd (f p))) e"
      using g by (simp_all add: echoes_def)
    from 1 2 3 4 show ?thesis by (auto simp: fst_write snd_write)
  qed
  then show ?thesis by (simp add: echoes_def)
qed

lemma echoes_if:
  "echoes f \<Longrightarrow> echoes g \<Longrightarrow> echoes (\<lambda>p. if c p then f p else g p)"
  by (simp add: echoes_def)

lemma echoes_case_option:
  "echoes f \<Longrightarrow> (\<And>x. echoes (g x)) \<Longrightarrow>
   echoes (\<lambda>p. case v of None \<Rightarrow> f p | Some x \<Rightarrow> g x p)"
  by (cases v) simp_all

lemma echoes_foldl:
  assumes "\<And>x. echoes (g x)" and "echoes f"
  shows "echoes (\<lambda>p. foldl (\<lambda>r x. write r (g x)) (f p) xs)"
  using assms(2)
proof (induction xs arbitrary: f)
  case Nil
  then show ?case by simp
next
  case (Cons x xs)
  have "echoes (\<lambda>p. write (f p) (g x))"
    by (rule echoes_write[OF Cons.prems assms(1)])
  from Cons.IH[OF this] show ?case by simp
qed

lemma echoes_closeBlock: "echoes closeBlock"
  by (simp add: echoes_def closeBlock_def)

lemma echoes_openBlock: "echoes (openBlock bt cb)"
  by (simp add: echoes_def openBlock_def)

lemma echoes_closeThinking: "echoes (closeThinkingWithFakeSignature clock)"
  by (simp add: echoes_def closeThinkingWithFakeSignature_def closeBlock_def Let_def write_def)

lemma echoes_closeOpenBlock: "echoes (closeOpenBlock clock)"
  unfolding closeOpenBlock_def[abs_def]
  by (intro echoes_if echoes_closeThinking echoes_closeBlock echoes_skip)

lemma echoes_processTextDelta: "echoes (processTextDelta clock t)"
  by (simp add: echoes_def processTextDelta_def closeThinkingWithFakeSignature_def closeBlock_def
        openBlock_def Let_def write_def)

lemma echoes_processThinkingDelta: "echoes (processThinkingDelta t)"
  by (simp add: echoes_def processThinkingDelta_def closeBlock_def openBlock_def Let_def write_def)

lemma echoes_processSignatureDelta: "echoes (processSignatureDelta t)"
  by (simp add: echoes_def processSignatureDelta_def closeBlock_def Let_def write_def)

lemma echoes_emitFinish: "echoes (emitFinish clock fr)"
  by (simp add: echoes_def emitFinish_def closeThinkingWithFakeSignature_def closeBlock_def
        Let_def write_def)

lemma echoes_startToolCall: "echoes (startToolCall idx toolID nm)"
  by (simp add: echoes_def startToolCall_def openBlock_def Let_def write_def)

lemma echoes_fallbackStart:
  "echoes (\<lambda>p. let (toolID, p') = fallbackToolID clock idx p in startToolCall idx toolID nm p')"
  by (simp add: echoes_def fallbackToolID_def startToolCall_def openBlock_def Let_def write_def)

lemma echoes_idStart:
  "echoes (\<lambda>p. let (toolID, p') = (if c then fallbackToolID clock idx p else (i, p))
               in startToolCall idx toolID nm p')"
  using echoes_fallbackStart[of clock idx nm] echoes_startToolCall[of idx i nm]
  by (cases c) simp_all

lemma echoes_toolCallArguments: "echoes (toolCallArguments tc)"
  by (auto simp: echoes_def toolCallArguments_def split: option.splits)

lemma echoes_toolCallStart: "echoes (toolCallStart clock tc)"
  unfolding toolCallStart_def[abs_def] Let_def
  by (intro echoes_if echoes_write echoes_closeOpenBlock echoes_idStart[unfolded Let_def]
        echoes_fallbackStart[unfolded Let_def] echoes_skip)

lemma echoes_processToolCallDelta: "echoes (processToolCallDelta clock tc)"
proof -
  have "echoes (\<lambda>p. write (toolCallStart clock tc p) (toolCallArguments tc))"
    by (rule echoes_write[OF echoes_toolCallStart echoes_toolCallArguments])
  then have "originalModel (snd (write (toolCallStart clock tc (p\<lparr>usedTool := True\<rparr>))
                 (toolCallArguments tc))) = originalModel (p\<lparr>usedTool := True\<rparr>) \<and>
      (\<forall>e \<in> set (fst (write (toolCallStart clock tc (p\<lparr>usedTool := True\<rparr>))
                 (toolCallArguments tc))). startModel (originalModel (p\<lparr>usedTool := True\<rparr>)) e)" for p
    unfolding echoes_def by blast
  then show ?thesis
    by (simp add: echoes_def processToolCallDelta_def)
qed

lemma echoes_processChoice: "echoes (processChoice clock choice)"
  unfolding processChoice_def[abs_def] Let_def
  by (intro echoes_write echoes_foldl echoes_if echoes_case_option echoes_skip
        echoes_processThinkingDelta echoes_processSignatureDelta echoes_processTextDelta
        echoes_processToolCallDelta echoes_emitFinish)

lemma echoes_emitMessageStart: "echoes (emitMessageStart draw i)"
  by (simp add: echoes_def emitMessageStart_def Let_def)

lemma echoes_updateUsage: "echoes (\<lambda>p. ([], updateUsage u p))"
  by (simp add: echoes_def updateUsage_def Let_def split: option.splits)

lemma echoes_processChunk: "echoes (processChunk clock draw chunk)"
  unfolding processChunk_def[abs_def] Let_def
  by (intro echoes_foldl echoes_write echoes_if echoes_skip echoes_emitMessageStart
        echoes_updateUsage echoes_processChoice)

lemma echoes_finishIfNeeded: "echoes (finishIfNeeded clock)"
  unfolding finishIfNeeded_def[abs_def]
  by (intro echoes_if echoes_skip echoes_emitFinish)

lemma echoes_Finish: "echoes (Finish clock)"
  unfolding Finish_def[abs_def]
  by (intro echoes_if echoes_skip echoes_emitFinish)

lemma echoes_ProcessLine: "echoes (ProcessLine js clock draw l)"
  using echoes_finishIfNeeded[of clock] echoes_processChunk[of clock draw]
  by (simp add: echoes_def ProcessLine_def split: line_kind.splits)

lemma streamLoop_echoes:
  "WriteEvents evs \<in> set (fst (streamLoop env n atClose feed p)) \<Longrightarrow> e \<in> set evs \<Longrightarrow>
   startModel (originalModel p) e"
proof (induction env n atClose feed p rule: streamLoop.induct)
  case (1 env n atClose p)
  then show ?case
    using echoes_Finish[of "env_clock env"]
    by (auto simp: echoes_def split: prod.splits if_splits)
next
  case (2 env n atClose l rest p)
  obtain evs' p' where pl: "ProcessLine (env_js env) (env_clock env) (env_draws env n) l p = (evs', p')"
    by (cases "ProcessLine (env_js env) (env_clock env) (env_draws env n) l p")
  have m: "originalModel p' = originalModel p"
    and s: "\<forall>e \<in> set evs'. startModel (originalModel p) e"
    using echoes_ProcessLine[of "env_js env" "env_clock env" "env_draws env n" l] pl
    by (auto simp: echoes_def dest: spec[where x=p])
  from "2.prems" pl have
    "WriteEvents evs \<in> set (if 0 < length evs' then [WriteEvents evs'] else []) \<or>
     WriteEvents evs \<in> set (fst (streamLoop env (Suc n) atClose rest p'))"
    by (auto split: prod.splits)
  then show ?case
  proof
    assume "WriteEvents evs \<in> set (if 0 < length evs' then [WriteEvents evs'] else [])"
    then have "evs = evs'" by (auto split: if_splits)
    with s "2.prems"(2) show ?thesis by blast
  next
    assume "WriteEvents evs \<in> set (fst (streamLoop env (Suc n) atClose rest p'))"
    from "2.IH"[OF pl[symmetric] refl this "2.prems"(2)] m show ?thesis by simp
  qed
next
  case (3 env n atClose disconnect handled rest p)
  then show ?case by (simp split: prod.splits)
next
  case (4 env n atClose disconnected rest p)
  then show ?case by (simp split: prod.splits)
qed

lemma streamResponse_echoes:
  "WriteEvents evs \<in> set (fst (streamResponse env resp m)) \<Longrightarrow> e \<in> set evs \<Longrightarrow> startModel m e"
  using streamLoop_echoes[of evs env 0 "DisconnectedAtClose resp" "Feed resp" "NewStreamingProcessor m" e]
  by (auto simp: streamResponse_def NewStreamingProcessor_def split: prod.splits)

subsection \<open>The gateway\<close>

lemma sendUpstream_Inr:
  assumes "sendUpstream env account body = Inr (resp, claudeReq, origModel, billingModel)"
  shows "\<exists>r0. unmarshalClaudeRequest (env_js env) body = Some r0 \<and> origModel = creq_Model r0 \<and>
           creq_Stream claudeReq = creq_Stream r0 \<and>
           (if acc_MappedModel account origModel \<noteq> '''' \<and>
               acc_MappedModel account origModel \<noteq> origModel
            then creq_Model claudeReq = acc_MappedModel account origModel \<and>
                 billingModel = acc_MappedModel account origModel
            else claudeReq = r0 \<and> billingModel = origModel)"
  using assms
  by (auto simp: sendUpstream_def Let_def split: if_splits option.splits sum.splits)

lemma Forward_Inr:
  "sendUpstream env account body = Inr (resp, claudeReq, origModel, billingModel) \<Longrightarrow>
   Forward env account body = forwardResponse env resp claudeReq origModel billingModel"
  by (simp add: Forward_def)

lemma TransformOpenAIToClaude_model:
  "TransformOpenAIToClaude js now draw body m = Inr (bytes, u) \<Longrightarrow>
   \<exists>cr. marshalClaudeResponse js cr = Some bytes \<and> resp_Model cr = m"
  by (auto simp: TransformOpenAIToClaude_def buildClaudeResponse_def Let_def
           split: option.splits prod.splits)

lemma forwardResponse_events:
  "WriteEvents evs \<in> set (fst (forwardResponse env resp claudeReq m b)) \<Longrightarrow> e \<in> set evs \<Longrightarrow>
   startModel m e"
  using streamResponse_echoes[of evs env resp m e]
  by (auto simp: forwardResponse_def forwardErrorStatus_def forwardUnary_def Let_def
           split: if_splits option.splits sum.splits prod.splits json.splits)

lemma intOfFloat_429: "intOfFloat oor 429 = 429"
  by (simp add: intOfFloat_def)

lemma streaming_in_body_429_run:
  "fst (Forward (envOf (answer 200 slowDown429Body [line slowDown429Body])) mappedAccount streamBody)
     = [Header ''Content-Type'' ''text/event-stream'', Header ''Cache-Control'' ''no-cache'',
        Header ''Connection'' ''keep-alive'', Header ''X-Accel-Buffering'' ''no'', Status 200,
        WriteEvents [message_delta ''end_turn'' 0, message_stop]]"
  by code_simp

subsection \<open>The specification's streaming scenario\<close>

text \<open>Reasoning without a signature, an answer, a stop: the events are those the
  specification lists, with the clock's reading as the synthesized signature.\<close>

lemma scenario_reasoning_without_signature:
  "fst (feedLines (jsStream reasoningTable) (\<lambda>_. 1730000000123) (\<lambda>_ _. 0) 0 reasoningLines
          (NewStreamingProcessor ''claude-x'')) =
     [message_start ''c1'' ''claude-x'' 0, content_block_start 0 thinking_block,
      content_block_delta 0 (thinking_delta ''think ''),
      content_block_delta 0 (thinking_delta ''more''),
      content_block_delta 0 (signature_delta ''1730000000123''),
      content_block_stop 0, content_block_start 1 text_block,
      content_block_delta 1 (text_delta ''answer''), content_block_stop 1,
      message_delta ''end_turn'' 0, message_stop]"
  by code_simp

subsection \<open>An upstream signature beside an empty \<open>thinking.content\<close>\<close>

text \<open>The transformer reads \<open>message.thinking.signature\<close> only when
  \<open>message.thinking.content\<close> is non-empty: with the reasoning text in
  \<open>reasoning_content\<close> and a \<open>thinking\<close> object that carries the signature \<open>S\<close> alone, the
  thinking block gets a synthesized signature.\<close>

lemma upstream_signature_dropped:
  "resp_Content (buildClaudeResponse jsNone 1730000000123 (\<lambda>_. 0)
       (responseOf ''cmpl_1'' signatureOnly) ''claude-x'') =
     [emptyItem\<lparr>ci_Type := ''thinking'', ci_Thinking := ''rc'',
                ci_Signature := ''1730000000123''\<rparr>]"
  by code_simp

section \<open>Claims\<close>

text \<open>
  C1. The code does not keep the claim. Each run below is a stream fed line by line to
  \<open>ProcessLine\<close>, followed by \<open>Finish\<close>, which the gateway calls when the stream ends, and
  the events are all that the client receives.
  \<^item> A stream of a comment line and a blank line: \<open>Finish\<close> emits \<open>message_delta\<close> and
    \<open>message_stop\<close> although no \<open>message_start\<close> was sent (\<open>finishIfNeeded\<close> returns
    nothing in that state; \<open>Finish\<close> has no such test).
  \<^item> A thinking delta with an upstream signature, then reasoning, then text:
    \<open>thinkingGotSig\<close> is never reset, so the second thinking block (index 1) is closed
    with no \<open>signature_delta\<close>.
  \<^item> A tool call, a signed thinking delta, then the arguments of the tool call: the
    \<open>input_json_delta\<close> is emitted with index 2 while no block is open.
  \<^item> Text with a finish reason, then more text: a block is opened after \<open>message_stop\<close>,
    which is then not the last event, and the block is never closed.
\<close>

theorem transducer_trace_defects:
  "fst (write (feedLines jsNone (\<lambda>_. 1730000000123) (\<lambda>_ _. 0) 0 ['': keep-alive'', '''']
               (NewStreamingProcessor ''claude-x''))
          (Finish (\<lambda>_. 1730000000123))) =
     [message_delta ''end_turn'' 0, message_stop] \<and>
   fst (write (feedLines (jsStream twoThinkingTable) (\<lambda>_. 1730000000123) (\<lambda>_ _. 0) 0
                 twoThinkingLines (NewStreamingProcessor ''claude-x''))
          (Finish (\<lambda>_. 1730000000123))) =
     [message_start ''c1'' ''claude-x'' 0, content_block_start 0 thinking_block,
      content_block_delta 0 (thinking_delta ''a''),
      content_block_delta 0 (signature_delta ''S''), content_block_stop 0,
      content_block_start 1 thinking_block, content_block_delta 1 (thinking_delta ''b''),
      content_block_stop 1, content_block_start 2 text_block,
      content_block_delta 2 (text_delta ''c''), content_block_stop 2,
      message_delta ''end_turn'' 0, message_stop] \<and>
   fst (write (feedLines (jsStream lateArgumentsTable) (\<lambda>_. 1730000000123) (\<lambda>_ _. 0) 0
                 lateArgumentsLines (NewStreamingProcessor ''claude-x''))
          (Finish (\<lambda>_. 1730000000123))) =
     [message_start ''c1'' ''claude-x'' 0,
      content_block_start 0 (tool_use_block ''a'' ''f''), content_block_stop 0,
      content_block_start 1 thinking_block, content_block_delta 1 (thinking_delta ''a''),
      content_block_delta 1 (signature_delta ''S''), content_block_stop 1,
      content_block_delta 2 (input_json_delta ''{}''),
      message_delta ''tool_use'' 0, message_stop] \<and>
   fst (write (feedLines (jsStream afterStopTable) (\<lambda>_. 1730000000123) (\<lambda>_ _. 0) 0
                 afterStopLines (NewStreamingProcessor ''claude-x''))
          (Finish (\<lambda>_. 1730000000123))) =
     [message_start ''c1'' ''claude-x'' 0, content_block_start 0 text_block,
      content_block_delta 0 (text_delta ''a''), content_block_stop 0,
      message_delta ''end_turn'' 0, message_stop,
      content_block_start 1 text_block, content_block_delta 1 (text_delta ''b'')]"
proof -
  have a: "fst (write (feedLines jsNone (\<lambda>_. 1730000000123) (\<lambda>_ _. 0) 0 ['': keep-alive'', '''']
               (NewStreamingProcessor ''claude-x''))
          (Finish (\<lambda>_. 1730000000123))) =
     [message_delta ''end_turn'' 0, message_stop]"
    by code_simp
  have b: "fst (write (feedLines (jsStream twoThinkingTable) (\<lambda>_. 1730000000123) (\<lambda>_ _. 0) 0
                 twoThinkingLines (NewStreamingProcessor ''claude-x''))
          (Finish (\<lambda>_. 1730000000123))) =
     [message_start ''c1'' ''claude-x'' 0, content_block_start 0 thinking_block,
      content_block_delta 0 (thinking_delta ''a''),
      content_block_delta 0 (signature_delta ''S''), content_block_stop 0,
      content_block_start 1 thinking_block, content_block_delta 1 (thinking_delta ''b''),
      content_block_stop 1, content_block_start 2 text_block,
      content_block_delta 2 (text_delta ''c''), content_block_stop 2,
      message_delta ''end_turn'' 0, message_stop]"
    by code_simp
  have c: "fst (write (feedLines (jsStream lateArgumentsTable) (\<lambda>_. 1730000000123) (\<lambda>_ _. 0) 0
                 lateArgumentsLines (NewStreamingProcessor ''claude-x''))
          (Finish (\<lambda>_. 1730000000123))) =
     [message_start ''c1'' ''claude-x'' 0,
      content_block_start 0 (tool_use_block ''a'' ''f''), content_block_stop 0,
      content_block_start 1 thinking_block, content_block_delta 1 (thinking_delta ''a''),
      content_block_delta 1 (signature_delta ''S''), content_block_stop 1,
      content_block_delta 2 (input_json_delta ''{}''),
      message_delta ''tool_use'' 0, message_stop]"
    by code_simp
  have d: "fst (write (feedLines (jsStream afterStopTable) (\<lambda>_. 1730000000123) (\<lambda>_ _. 0) 0
                 afterStopLines (NewStreamingProcessor ''claude-x''))
          (Finish (\<lambda>_. 1730000000123))) =
     [message_start ''c1'' ''claude-x'' 0, content_block_start 0 text_block,
      content_block_delta 0 (text_delta ''a''), content_block_stop 0,
      message_delta ''end_turn'' 0, message_stop,
      content_block_start 1 text_block, content_block_delta 1 (text_delta ''b'')]"
    by code_simp
  from a b c d show ?thesis by (intro conjI)
qed

text \<open>
  C2. For non-negative \<open>prompt_tokens\<close>, \<open>completion_tokens\<close> and \<open>cached_tokens\<close> of an
  upstream usage object, \<open>extractUsage\<close> yields \<open>input_tokens = max 0 (prompt_tokens -
  cached_tokens)\<close>, \<open>cache_read_input_tokens = cached_tokens\<close> and \<open>output_tokens =
  completion_tokens\<close>, where \<open>cached_tokens\<close> is 0 when \<open>prompt_tokens_details\<close> is
  absent; without a usage object all three counters are 0; and after \<open>ProcessLine\<close> on a
  line whose chunk carries the usage object, the accumulated usage of the stream is the
  same as \<open>extractUsage\<close> of it.
\<close>

theorem usage_derivation:
  assumes "0 \<le> sint (u_PromptTokens u)" and "0 \<le> sint (u_CompletionTokens u)"
    and "0 \<le> sint (spec_cached_tokens u)"
  shows "sint (InputTokens (extractUsage (Some u))) =
           max 0 (sint (u_PromptTokens u) - sint (spec_cached_tokens u)) \<and>
         CacheReadInputTokens (extractUsage (Some u)) = spec_cached_tokens u \<and>
         OutputTokens (extractUsage (Some u)) = u_CompletionTokens u \<and>
         (u_PromptTokensDetails u = None \<longrightarrow>
            CacheReadInputTokens (extractUsage (Some u)) = 0) \<and>
         extractUsage None =
           \<lparr>InputTokens = 0, OutputTokens = 0, CacheReadInputTokens = 0\<rparr> \<and>
         (\<forall>js clock draw l p chunk.
            classifyLine js l = Chunk chunk \<and> sc_Usage chunk = Some u \<longrightarrow>
            usage (snd (ProcessLine js clock draw l p)) = extractUsage (Some u))"
proof -
  note e = extractUsage_Some[OF assms(1,3)]
  have s: "usage (snd (ProcessLine js clock draw l p)) = extractUsage (Some u)"
    if "classifyLine js l = Chunk chunk \<and> sc_Usage chunk = Some u"
    for js clock draw l p chunk
    using that by (simp add: ProcessLine_def usage_processChunk usage_updateUsage_Some)
  have d: "u_PromptTokensDetails u = None \<longrightarrow>
             CacheReadInputTokens (extractUsage (Some u)) = 0"
    by (simp add: e(2) spec_cached_tokens_def)
  have z: "extractUsage None = \<lparr>InputTokens = 0, OutputTokens = 0, CacheReadInputTokens = 0\<rparr>"
    by (simp add: extractUsage_def zeroUsage_def)
  from e d z s show ?thesis by blast
qed

theorem usage_derivation_witness:
  "0 \<le> sint (u_PromptTokens scenarioUsage) \<and> 0 \<le> sint (u_CompletionTokens scenarioUsage) \<and>
   0 \<le> sint (spec_cached_tokens scenarioUsage) \<and>
   sint (InputTokens (extractUsage (Some scenarioUsage))) = 4 \<and>
   CacheReadInputTokens (extractUsage (Some scenarioUsage)) = 1 \<and>
   OutputTokens (extractUsage (Some scenarioUsage)) = 2 \<and>
   classifyLine (jsStream [(usagePayload, usageChunk)]) (''data: '' @ usagePayload)
     = Chunk usageChunk \<and>
   sc_Usage usageChunk = Some scenarioUsage \<and>
   usage (snd (ProcessLine (jsStream [(usagePayload, usageChunk)]) (\<lambda>_. 0) (\<lambda>_. 0)
                 (''data: '' @ usagePayload) (NewStreamingProcessor ''claude-x'')))
     = extractUsage (Some scenarioUsage)"
proof -
  have h1: "0 \<le> sint (u_PromptTokens scenarioUsage)"
    and h2: "0 \<le> sint (u_CompletionTokens scenarioUsage)"
    and h3: "0 \<le> sint (spec_cached_tokens scenarioUsage)"
    by (simp_all add: scenarioUsage_def spec_cached_tokens_def)
  have c: "classifyLine (jsStream [(usagePayload, usageChunk)]) (''data: '' @ usagePayload)
             = Chunk usageChunk"
    by code_simp
  have s: "sc_Usage usageChunk = Some scenarioUsage"
    by (simp add: usageChunk_def)
  from usage_derivation[OF h1 h2 h3] c s h1 h2 h3 show ?thesis
    by (simp add: scenarioUsage_def spec_cached_tokens_def)
qed




text \<open>
  C4. Whenever the gateway has reached the upstream, the model it echoes is the one the
  client supplied (\<open>origModel\<close>, the model of the decoded client request), also when the
  account's mapping table substitutes another model for the upstream request and for
  billing: every \<open>message_start\<close> event written to the client carries it, and when a
  non-streaming answer is translated, the body written to the client is the encoding of a
  Claude response whose model it is.
\<close>

theorem model_echo:
  assumes "sendUpstream env account body = Inr (resp, claudeReq, origModel, billingModel)"
  shows "(\<exists>r0. unmarshalClaudeRequest (env_js env) body = Some r0 \<and> origModel = creq_Model r0) \<and>
         (acc_MappedModel account origModel \<noteq> '''' \<and>
          acc_MappedModel account origModel \<noteq> origModel \<longrightarrow>
            creq_Model claudeReq = acc_MappedModel account origModel \<and>
            billingModel = acc_MappedModel account origModel) \<and>
         (\<forall>evs i md tok.
            WriteEvents evs \<in> set (fst (Forward env account body)) \<and>
            message_start i md tok \<in> set evs \<longrightarrow> md = origModel) \<and>
         (\<forall>bytes u.
            StatusCode resp < 400 \<and> \<not> creq_Stream claudeReq \<and> \<not> BodyErr resp \<and>
            (case unmarshalErrorResponse (env_js env) (Body resp) of
               None \<Rightarrow> None | Some errResp \<Rightarrow> er_Error errResp) = None \<and>
            TransformOpenAIToClaude (env_js env) (env_now env) (env_draws env 0) (Body resp)
              origModel = Inr (bytes, u) \<longrightarrow>
            fst (Forward env account body) =
              [Header ''Content-Type'' ''application/json'', Status 200, WriteBody bytes] \<and>
            (\<exists>cr. marshalClaudeResponse (env_js env) cr = Some bytes \<and>
                  resp_Model cr = origModel))"
proof -
  note F = Forward_Inr[OF assms]
  have a: "\<exists>r0. unmarshalClaudeRequest (env_js env) body = Some r0 \<and> origModel = creq_Model r0"
    using sendUpstream_Inr[OF assms] by blast
  have b: "md = origModel"
    if "WriteEvents evs \<in> set (fst (Forward env account body)) \<and> message_start i md tok \<in> set evs"
    for evs i md tok
    using forwardResponse_events[of evs env resp claudeReq origModel billingModel
            "message_start i md tok"] that
    unfolding F by simp
  have c: "fst (Forward env account body) =
             [Header ''Content-Type'' ''application/json'', Status 200, WriteBody bytes] \<and>
           (\<exists>cr. marshalClaudeResponse (env_js env) cr = Some bytes \<and> resp_Model cr = origModel)"
    if "StatusCode resp < 400 \<and> \<not> creq_Stream claudeReq \<and> \<not> BodyErr resp \<and>
        (case unmarshalErrorResponse (env_js env) (Body resp) of
           None \<Rightarrow> None | Some errResp \<Rightarrow> er_Error errResp) = None \<and>
        TransformOpenAIToClaude (env_js env) (env_now env) (env_draws env 0) (Body resp)
          origModel = Inr (bytes, u)"
    for bytes u
    using that TransformOpenAIToClaude_model[of "env_js env" "env_now env" "env_draws env 0"
            "Body resp" origModel bytes u]
    unfolding F by (simp add: forwardResponse_def forwardUnary_def Let_def)
  have d: "acc_MappedModel account origModel \<noteq> '''' \<and>
           acc_MappedModel account origModel \<noteq> origModel \<longrightarrow>
             creq_Model claudeReq = acc_MappedModel account origModel \<and>
             billingModel = acc_MappedModel account origModel"
    using sendUpstream_Inr[OF assms] by auto
  from a b c d show ?thesis by blast
qed

theorem model_echo_witness:
  "sendUpstream (envOf (answer 200 '''' (map line reasoningLines))) mappedAccount streamBody =
     Inr (answer 200 '''' (map line reasoningLines),
          (clientRequest True)\<lparr>creq_Model := ''gpt-y''\<rparr>, ''claude-x'', ''gpt-y'') \<and>
   WriteEvents [message_start ''c1'' ''claude-x'' 0, content_block_start 0 thinking_block,
                content_block_delta 0 (thinking_delta ''think '')]
     \<in> set (fst (Forward (envOf (answer 200 '''' (map line reasoningLines))) mappedAccount
                  streamBody)) \<and>
   sendUpstream (envOf (answer 200 helloBody [])) mappedAccount unaryBody =
     Inr (answer 200 helloBody [],
          (clientRequest False)\<lparr>creq_Model := ''gpt-y''\<rparr>, ''claude-x'', ''gpt-y'') \<and>
   fst (Forward (envOf (answer 200 helloBody [])) mappedAccount unaryBody) =
     [Header ''Content-Type'' ''application/json'', Status 200,
      WriteBody ''response of claude-x'']"
proof -
  have s1: "sendUpstream (envOf (answer 200 '''' (map line reasoningLines))) mappedAccount
              streamBody =
     Inr (answer 200 '''' (map line reasoningLines),
          (clientRequest True)\<lparr>creq_Model := ''gpt-y''\<rparr>, ''claude-x'', ''gpt-y'')"
    by code_simp
  have w: "WriteEvents [message_start ''c1'' ''claude-x'' 0, content_block_start 0 thinking_block,
                content_block_delta 0 (thinking_delta ''think '')]
     \<in> set (fst (Forward (envOf (answer 200 '''' (map line reasoningLines))) mappedAccount
                  streamBody))"
    by code_simp
  have s2: "sendUpstream (envOf (answer 200 helloBody [])) mappedAccount unaryBody =
     Inr (answer 200 helloBody [],
          (clientRequest False)\<lparr>creq_Model := ''gpt-y''\<rparr>, ''claude-x'', ''gpt-y'')"
    by code_simp
  have e: "unmarshalErrorResponse jsGateway helloBody = Some \<lparr>er_Error = None\<rparr>"
    by (simp add: jsGateway_def jsNone_def helloBody_def slowDownBody_def slowDown429Body_def
          slowDownTextBody_def)
  have t: "TransformOpenAIToClaude jsGateway 1730000000123 (\<lambda>_. 0) helloBody ''claude-x'' =
             Inr (''response of claude-x'',
                  resp_Usage (buildClaudeResponse jsGateway 1730000000123 (\<lambda>_. 0)
                     (responseOf ''cmpl_1'' helloMessage) ''claude-x''))"
    by (simp add: TransformOpenAIToClaude_def jsGateway_def jsNone_def helloBody_def Let_def
          buildClaudeResponse_def responseOf_def)
  from model_echo[OF s2] e t
  have "fst (Forward (envOf (answer 200 helloBody [])) mappedAccount unaryBody) =
     [Header ''Content-Type'' ''application/json'', Status 200,
      WriteBody ''response of claude-x'']"
    by (simp add: answer_def envOf_def clientRequest_def)
  with s1 w s2 show ?thesis by blast
qed

text \<open>
  C5. The code does not keep the claim: the \<open>input_json_delta\<close> of a tool call is emitted
  at the current block index, whatever block that is. When index 0 starts, index 1 starts
  and then the arguments \<open>{}\<close> of index 0 arrive, they are emitted under block 1, the
  block of the other tool call, and block 0 has received nothing.
\<close>

theorem interleaved_tool_calls:
  "fst (feedLines (jsStream interleavedTable) (\<lambda>_. 0) (\<lambda>_ _. 0) 0 interleavedLines
          (NewStreamingProcessor ''claude-x'')) =
     [message_start ''c1'' ''claude-x'' 0,
      content_block_start 0 (tool_use_block ''a'' ''f''),
      content_block_stop 0,
      content_block_start 1 (tool_use_block ''b'' ''g''),
      content_block_delta 1 (input_json_delta ''{}'')]"
  by code_simp

text \<open>
  C6, as amended. When the upstream answers with HTTP status 429, the gateway returns the
  failover error with status 429 and the first 2 MiB of the body, and writes nothing to
  the client. When it answers a request that does not stream with a status below 400 and
  a body that parses as an error envelope, then if the code is the number 429 the gateway
  returns the failover error with status 429 and the body and writes nothing to the
  client, and if the code is absent or not a number the wrapped status is 502.
\<close>

theorem rate_limit_failover:
  assumes "sendUpstream env account body = Inr (resp, claudeReq, origModel, billingModel)"
  shows "(StatusCode resp = 429 \<longrightarrow>
            Forward env account body =
              ([], Inl (UpstreamFailoverError 429 (take 2097152 (Body resp))))) \<and>
         (StatusCode resp < 400 \<and> \<not> creq_Stream claudeReq \<and> \<not> BodyErr resp \<and>
          unmarshalErrorResponse (env_js env) (Body resp) = Some errResp \<and>
          er_Error errResp = Some e \<longrightarrow>
            (ed_Code e = Some (JNumber 429) \<longrightarrow>
               Forward env account body = ([], Inl (UpstreamFailoverError 429 (Body resp)))) \<and>
            ((\<forall>x. ed_Code e \<noteq> Some (JNumber x)) \<longrightarrow>
               Forward env account body =
                 ([Header ''Content-Type'' ''application/json'', Status 502,
                   WriteBody (TransformOpenAIErrorToClaude (env_js env) (Body resp) 502)],
                  Inr (resultOf billingModel))))"
  unfolding Forward_Inr[OF assms]
  by (auto simp: forwardResponse_def forwardErrorStatus_def forwardUnary_def Let_def
        intOfFloat_429 split: option.splits json.splits)

theorem rate_limit_failover_witness:
  "sendUpstream (envOf (answer 429 slowDownBody [])) mappedAccount unaryBody =
     Inr (answer 429 slowDownBody [],
          (clientRequest False)\<lparr>creq_Model := ''gpt-y''\<rparr>, ''claude-x'', ''gpt-y'') \<and>
   Forward (envOf (answer 429 slowDownBody [])) mappedAccount unaryBody =
     ([], Inl (UpstreamFailoverError 429 slowDownBody)) \<and>
   Forward (envOf (answer 200 slowDown429Body [])) mappedAccount unaryBody =
     ([], Inl (UpstreamFailoverError 429 slowDown429Body)) \<and>
   Forward (envOf (answer 200 slowDownTextBody [])) mappedAccount unaryBody =
     ([Header ''Content-Type'' ''application/json'', Status 502,
       WriteBody (TransformOpenAIErrorToClaude jsGateway slowDownTextBody 502)],
      Inr (resultOf ''gpt-y''))"
proof -
  have s: "sendUpstream (envOf (answer st b [])) mappedAccount unaryBody =
     Inr (answer st b [], (clientRequest False)\<lparr>creq_Model := ''gpt-y''\<rparr>, ''claude-x'', ''gpt-y'')"
    for st b
    by code_simp
  have e1: "unmarshalErrorResponse jsGateway slowDown429Body = Some (slowDown (Some (JNumber 429)))"
    and e2: "unmarshalErrorResponse jsGateway slowDownTextBody =
               Some (slowDown (Some (JString ''rate_limited'')))"
    by (simp_all add: jsGateway_def jsNone_def helloBody_def slowDownBody_def slowDown429Body_def
          slowDownTextBody_def)
  have l: "take 2097152 slowDownBody = slowDownBody"
    by (simp add: slowDownBody_def)
  from rate_limit_failover[OF s[of 429 slowDownBody]]
  have f1: "Forward (envOf (answer 429 slowDownBody [])) mappedAccount unaryBody =
     ([], Inl (UpstreamFailoverError 429 slowDownBody))"
    by (simp add: answer_def l)
  from rate_limit_failover[OF s[of 200 slowDown429Body], of "slowDown (Some (JNumber 429))"
         "\<lparr>ed_Message = ''slow down'', ed_Type = '''', ed_Code = Some (JNumber 429)\<rparr>"] e1
  have f2: "Forward (envOf (answer 200 slowDown429Body [])) mappedAccount unaryBody =
     ([], Inl (UpstreamFailoverError 429 slowDown429Body))"
    by (simp add: answer_def envOf_def clientRequest_def slowDown_def)
  from rate_limit_failover[OF s[of 200 slowDownTextBody],
         of "slowDown (Some (JString ''rate_limited''))"
         "\<lparr>ed_Message = ''slow down'', ed_Type = '''', ed_Code = Some (JString ''rate_limited'')\<rparr>"] e2
  have f3: "Forward (envOf (answer 200 slowDownTextBody [])) mappedAccount unaryBody =
     ([Header ''Content-Type'' ''application/json'', Status 502,
       WriteBody (TransformOpenAIErrorToClaude jsGateway slowDownTextBody 502)],
      Inr (resultOf ''gpt-y''))"
    by (simp add: answer_def envOf_def clientRequest_def slowDown_def)
  from s[of 429 slowDownBody] f1 f2 f3 show ?thesis by blast
qed

text \<open>
  C6 as stated fails: to a streaming request, an HTTP 200 answer whose body is the error
  envelope with code 429 is handed to the stream loop, which writes to the client; no
  failover error is returned.
\<close>

theorem streaming_in_body_429_counterexample:
  "Forward (envOf (answer 200 slowDown429Body [line slowDown429Body])) mappedAccount streamBody
     \<noteq> ([], Inl (UpstreamFailoverError 429 slowDown429Body))"
  by code_simp

text \<open>
  C7, as amended. Tool-result extraction: an empty content gives \<open>Tool execution failed.\<close>
  if \<open>is_error\<close> and \<open>Command executed successfully.\<close> otherwise; a content that parses
  as a string gives that string unchanged when it is not blank after trimming and the same
  two sentinels when it is blank; a content that parses as a sequence of objects gives
  their string-valued \<open>text\<close> fields, the empty ones included, joined by a line feed, when
  that is not blank after trimming; in every other case the raw content bytes.
\<close>

theorem tool_result_text:
  "(cb_Content block = '''' \<longrightarrow> extractToolResultText js block = sentinel block) \<and>
   (cb_Content block \<noteq> '''' \<and> unmarshalString js (cb_Content block) = Some str \<longrightarrow>
      (TrimSpace str \<noteq> '''' \<longrightarrow> extractToolResultText js block = str) \<and>
      (TrimSpace str = '''' \<longrightarrow> extractToolResultText js block = sentinel block)) \<and>
   (cb_Content block \<noteq> '''' \<and> unmarshalString js (cb_Content block) = None \<and>
    unmarshalObjects js (cb_Content block) = Some arr \<longrightarrow>
      (TrimSpace (Join (textsOf arr) [CHR 0x0A]) \<noteq> '''' \<longrightarrow>
         extractToolResultText js block = Join (textsOf arr) [CHR 0x0A]) \<and>
      (TrimSpace (Join (textsOf arr) [CHR 0x0A]) = '''' \<longrightarrow>
         extractToolResultText js block = cb_Content block)) \<and>
   (cb_Content block \<noteq> '''' \<and> unmarshalString js (cb_Content block) = None \<and>
    unmarshalObjects js (cb_Content block) = None \<longrightarrow>
      extractToolResultText js block = cb_Content block)"
  by (simp add: extractToolResultText_def sentinel_def Let_def)

theorem tool_result_text_witness:
  \<open>extractToolResultText jsToolResult (toolResult '''' True) = ''Tool execution failed.'' \<and>
   extractToolResultText jsToolResult (toolResult ''"sunny"'' False) = ''sunny'' \<and>
   extractToolResultText jsToolResult (toolResult ''"  "'' False)
     = ''Command executed successfully.'' \<and>
   extractToolResultText jsToolResult (toolResult threeTexts False)
     = [CHR ''a'', CHR 0x0A, CHR 0x0A, CHR ''b''] \<and>
   extractToolResultText jsToolResult (toolResult ''{"a":1}'' False) = ''{"a":1}''\<close>
proof -
  have t: "textsOf [[(''type'', JString ''text''), (''text'', JString ''a'')],
                    [(''type'', JString ''text''), (''text'', JString '''')],
                    [(''type'', JString ''text''), (''text'', JString ''b'')]] = [''a'', '''', ''b'']"
    by (simp add: textsOf_def)
  show ?thesis
    using tool_result_text[of "toolResult '''' True" jsToolResult]
      tool_result_text[of \<open>toolResult ''"sunny"'' False\<close> jsToolResult "''sunny''"]
      tool_result_text[of \<open>toolResult ''"  "'' False\<close> jsToolResult "''  ''"]
      tool_result_text[of "toolResult threeTexts False" jsToolResult _
         "[[(''type'', JString ''text''), (''text'', JString ''a'')],
           [(''type'', JString ''text''), (''text'', JString '''')],
           [(''type'', JString ''text''), (''text'', JString ''b'')]]"]
      tool_result_text[of \<open>toolResult ''{"a":1}'' False\<close> jsToolResult]
    by (simp add: toolResult_def jsToolResult_def jsNone_def sentinel_def threeTexts_def t
          trim_sunny trim_blank trim_texts)
qed

text \<open>
  C7 as stated fails: the empty \<open>text\<close> field of the middle object is not dropped, so the
  result has two line feeds between \<open>a\<close> and \<open>b\<close>.
\<close>

theorem tool_result_empty_text_counterexample:
  "extractToolResultText jsToolResult (toolResult threeTexts False)
     \<noteq> claimed_tool_result_text jsToolResult (toolResult threeTexts False)"
  by code_simp

text \<open>
  C8, as amended. The id of a non-streaming Claude response is the upstream id unchanged
  when that is non-empty; when the upstream id is empty it is \<open>msg_\<close> followed by exactly
  12 characters drawn from \<open>[A-Za-z0-9]\<close>.
\<close>

theorem response_id:
  "resp_ID (buildClaudeResponse js now draw resp m) =
     (if cr_ID resp \<noteq> '''' then cr_ID resp else ''msg_'' @ randomID draw) \<and>
   length (randomID draw) = 12 \<and> (\<forall>ch \<in> set (randomID draw). alnum ch)"
  using chars_alnum randomID_chars[of draw]
  by (auto simp: resp_ID_build convertID_def length_randomID)

theorem response_id_witness:
  "resp_ID (buildClaudeResponse jsNone 0 (\<lambda>i. i * 7) (responseOf '''' helloMessage) ''claude-x'')
     = ''msg_ahovCJQX4bip'' \<and>
   CHR ''a'' \<in> set (randomID (\<lambda>i. i * 7)) \<and> alnum (CHR ''a'')"
proof -
  have r: "randomID (\<lambda>i. i * 7) = ''ahovCJQX4bip''" by code_simp
  show ?thesis
    using response_id[of jsNone 0 "\<lambda>i. i * 7" "responseOf '''' helloMessage" "''claude-x''"]
    by (simp add: r responseOf_def)
qed

text \<open>
  C8 as stated fails: the upstream id \<open>cmpl_1\<close> of the specification's first scenario is
  passed through, and does not begin with \<open>msg_\<close>.
\<close>

theorem upstream_id_counterexample:
  "\<not> HasPrefix (resp_ID (buildClaudeResponse jsNone 0 (\<lambda>_. 0)
        (responseOf ''cmpl_1'' helloMessage) ''claude-x'')) ''msg_''"
  by code_simp



text \<open>
  C10. A line that, once trimmed, begins with \<open>data:\<close> and has an empty payload after
  trimming is processed exactly as \<open>data: [DONE]\<close>. If \<open>message_start\<close> has been sent and
  \<open>message_stop\<close> has not, it is the terminal flush: the events are the
  \<open>content_block_stop\<close> of the open block, if there is one (after a synthesized
  \<open>signature_delta\<close> when it is a thinking block for which no signature has come), then
  \<open>message_delta\<close> and \<open>message_stop\<close>, and afterwards no block is open and
  \<open>message_stop\<close> is recorded as sent. Otherwise it emits nothing and leaves the processor
  as it is.
\<close>

theorem empty_data_line_is_done:
  assumes "HasPrefix (TrimSpace l) ''data:''"
    and "TrimSpace (TrimPrefix (TrimSpace l) ''data:'') = ''''"
  shows "ProcessLine js clock draw l p = ProcessLine js clock draw ''data: [DONE]'' p \<and>
         (if messageStartSent p \<and> \<not> messageStopSent p then
            fst (ProcessLine js clock draw l p) =
              (if \<not> blockOpen p then []
               else if blockType p = ''thinking'' \<and> \<not> thinkingGotSig p then
                 [content_block_delta (blockIndex p)
                    (signature_delta (FormatInt (clock (clockReads p)))),
                  content_block_stop (blockIndex p)]
               else [content_block_stop (blockIndex p)]) @
              [message_delta (if usedTool p then ''tool_use'' else ''end_turn'')
                 (OutputTokens (usage p)),
               message_stop] \<and>
            \<not> blockOpen (snd (ProcessLine js clock draw l p)) \<and>
            messageStopSent (snd (ProcessLine js clock draw l p))
          else ProcessLine js clock draw l p = ([], p))"
  by (simp add: ProcessLine_def classify_done classify_empty_data[OF assms] finishIfNeeded_def
        emitFinish_def closeThinkingWithFakeSignature_def closeBlock_def write_def Let_def)

theorem empty_data_line_is_done_witness:
  "HasPrefix (TrimSpace '' data:  '') ''data:'' \<and>
   TrimSpace (TrimPrefix (TrimSpace '' data:  '') ''data:'') = '''' \<and>
   fst (ProcessLine jsNone (\<lambda>_. 1730000000123) (\<lambda>_. 0) '' data:  '' openThinkingBlock) =
     [content_block_delta 3 (signature_delta ''1730000000123''), content_block_stop 3,
      message_delta ''end_turn'' 0, message_stop] \<and>
   \<not> blockOpen (snd (ProcessLine jsNone (\<lambda>_. 1730000000123) (\<lambda>_. 0) '' data:  ''
                      openThinkingBlock)) \<and>
   fst (ProcessLine jsNone (\<lambda>_. 1730000000123) (\<lambda>_. 0) '' data:  '' openTextBlock) =
     [content_block_stop 0, message_delta ''end_turn'' 0, message_stop] \<and>
   ProcessLine jsNone (\<lambda>_. 1730000000123) (\<lambda>_. 0) '' data:  '' openTextBlock =
     ProcessLine jsNone (\<lambda>_. 1730000000123) (\<lambda>_. 0) ''data: [DONE]'' openTextBlock \<and>
   ProcessLine jsNone (\<lambda>_. 1730000000123) (\<lambda>_. 0) '' data:  ''
     (NewStreamingProcessor ''claude-x'') = ([], NewStreamingProcessor ''claude-x'')"
proof -
  have h1: "HasPrefix (TrimSpace '' data:  '') ''data:''" by code_simp
  have h2: "TrimSpace (TrimPrefix (TrimSpace '' data:  '') ''data:'') = ''''" by code_simp
  have f: "FormatInt 1730000000123 = ''1730000000123''" by code_simp
  note t1 = empty_data_line_is_done[OF h1 h2, of jsNone "\<lambda>_. 1730000000123" "\<lambda>_. 0"
              openThinkingBlock]
  note t2 = empty_data_line_is_done[OF h1 h2, of jsNone "\<lambda>_. 1730000000123" "\<lambda>_. 0"
              openTextBlock]
  note t3 = empty_data_line_is_done[OF h1 h2, of jsNone "\<lambda>_. 1730000000123" "\<lambda>_. 0"
              "NewStreamingProcessor ''claude-x''"]
  have e1: "fst (ProcessLine jsNone (\<lambda>_. 1730000000123) (\<lambda>_. 0) '' data:  '' openThinkingBlock) =
     [content_block_delta 3 (signature_delta ''1730000000123''), content_block_stop 3,
      message_delta ''end_turn'' 0, message_stop] \<and>
   \<not> blockOpen (snd (ProcessLine jsNone (\<lambda>_. 1730000000123) (\<lambda>_. 0) '' data:  ''
                      openThinkingBlock))"
    using t1[THEN conjunct2]
    by (simp add: openThinkingBlock_def NewStreamingProcessor_def zeroUsage_def f)
  have e2: "fst (ProcessLine jsNone (\<lambda>_. 1730000000123) (\<lambda>_. 0) '' data:  '' openTextBlock) =
     [content_block_stop 0, message_delta ''end_turn'' 0, message_stop] \<and>
   ProcessLine jsNone (\<lambda>_. 1730000000123) (\<lambda>_. 0) '' data:  '' openTextBlock =
     ProcessLine jsNone (\<lambda>_. 1730000000123) (\<lambda>_. 0) ''data: [DONE]'' openTextBlock"
    using t2[THEN conjunct2] t2[THEN conjunct1]
    by (simp add: openTextBlock_def NewStreamingProcessor_def zeroUsage_def)
  have e3: "ProcessLine jsNone (\<lambda>_. 1730000000123) (\<lambda>_. 0) '' data:  ''
     (NewStreamingProcessor ''claude-x'') = ([], NewStreamingProcessor ''claude-x'')"
    using t3[THEN conjunct2] by (simp add: NewStreamingProcessor_def)
  from h1 h2 e1 e2 e3 show ?thesis by blast
qed

end
